theory Spec2Isabelle
  imports Complex_Main "HOL-Library.Word" "HOL-Library.Signed_Division"
begin

section \<open>The recognizer of src/kaldi\_recognizer.cc\<close>

text \<open>
  The recognition session (class KaldiRecognizer) drives objects of the Kaldi library: a
  feature pipeline, a decoder, a silence weighting helper and a speaker feature extractor.
  Their internals are outside the repository, so the library is a parameter of the model:
  a record of operations over abstract object types. Every theorem below is stated for an
  arbitrary library; a small concrete library is used only where a statement is evaluated.

  The header kaldi\_recognizer.h is not among the sources. The field list is read off the
  uses in kaldi\_recognizer.cc, a field name loses its trailing underscore, the integer
  counters are mathematical integers (they are signed in C++, where overflow is undefined),
  and the float and double values are elements of an abstract carrier \<open>'f\<close> whose
  arithmetic is part of the library record, so that nothing is assumed about rounding.
\<close>

subsection \<open>Data\<close>

datatype KaldiRecognizerState =
    RECOGNIZER_INITIALIZED
  | RECOGNIZER_RUNNING
  | RECOGNIZER_ENDPOINT
  | RECOGNIZER_FINALIZED

text \<open>What ends a call abnormally: a dereferenced NULL decoder, a read past the end of a
  caller's buffer, a negative dimension handed to \<open>Vector::Resize\<close>.\<close>

datatype error = NullPointer | OutOfRange | NegativeDim

text \<open>
  The call trace. Each entry is one call made by the recognizer, in program order: into the
  library, or (\<open>Call_CleanUp\<close>) into its own reset routine. The trace is a ghost field:
  no branch of the source reads it. Cheap getters (\<open>NumFramesDecoded\<close>,
  \<open>NumFramesReady\<close>, \<open>Active\<close>, \<open>NumStates\<close>) are not recorded.
\<close>

datatype event =
    Call_CleanUp
  | New_SilenceWeighting
  | New_OnlineMfcc
  | Delete_Decoder
  | Delete_FeaturePipeline
  | New_FeaturePipeline
  | Set_AdaptationState
  | Set_CmvnState
  | New_Decoder
  | Init_Decoding int
  | Fp_AcceptWaveform nat
  | Sw_ComputeCurrentTraceback
  | Sw_GetDeltaWeights
  | Fp_UpdateFrameWeights
  | Dec_AdvanceDecoding
  | Spk_AcceptWaveform nat
  | Dec_EndpointDetected
  | Dec_FinalizeDecoding
  | Fp_InputFinished
  | Dec_GetLattice
  | Lm_Rescore
  | Lat_ShortestPath
  | Lat_WordAlign
  | Lat_MinimumBayesRisk
  | Dec_GetBestPath

text \<open>One entry of the minimum-Bayes-risk one-best output: the three parallel vectors
  \<open>words\<close>, \<open>conf\<close> and \<open>times\<close> of the source, read at the same index.\<close>

record 'f mbr_entry =
  mbr_word :: int
  mbr_conf :: 'f
  mbr_first :: 'f
  mbr_second :: 'f

text \<open>One element of \<open>metadata_["words"]\<close>.\<close>

record 'f json_word =
  j_word :: string
  j_start :: 'f
  j_end :: 'f
  j_conf :: 'f

text \<open>The metadata JSON value: Null, or an object with the keys "text" and "words". The
  JSON class itself is library code; its operations are read off their uses in
  \<open>ComputeTimestamp\<close>: indexing a Null value makes it an object, a key never written
  reads as the empty string or the empty array, \<open>append\<close> adds at the end.\<close>

datatype 'f metadata = Md_Null | Md_Object string "'f json_word list"

fun md_text :: "'f metadata \<Rightarrow> string" where
  "md_text Md_Null = []"
| "md_text (Md_Object t ws) = t"

fun md_words :: "'f metadata \<Rightarrow> 'f json_word list" where
  "md_words Md_Null = []"
| "md_words (Md_Object t ws) = ws"

definition md_append_word :: "'f json_word \<Rightarrow> 'f metadata \<Rightarrow> 'f metadata" where
  "md_append_word w m = Md_Object (md_text m) (md_words m @ [w])"

definition md_set_text :: "string \<Rightarrow> 'f metadata \<Rightarrow> 'f metadata" where
  "md_set_text t m = Md_Object t (md_words m)"

text \<open>The library and the loaded model, as the recognizer uses them.\<close>

record ('fp, 'dec, 'sw, 'spk, 'lat, 'f) kaldi =
  fp_New :: 'fp
  fp_SetAdaptationState :: "'fp \<Rightarrow> 'fp"
  fp_SetCmvnState :: "'fp \<Rightarrow> 'fp"
  fp_AcceptWaveform :: "'f \<Rightarrow> 'f list \<Rightarrow> 'fp \<Rightarrow> 'fp"
  fp_NumFramesReady :: "'fp \<Rightarrow> int"
  fp_HasIvectorFeature :: "'fp \<Rightarrow> bool"
  fp_UpdateFrameWeights :: "(int \<times> 'f) list \<Rightarrow> 'fp \<Rightarrow> 'fp"
  fp_InputFinished :: "'fp \<Rightarrow> 'fp"
  sw_New :: 'sw
  sw_Active :: "'sw \<Rightarrow> bool"
  sw_ComputeCurrentTraceback :: "'dec \<Rightarrow> 'sw \<Rightarrow> 'sw"
  sw_GetDeltaWeights :: "int \<Rightarrow> int \<Rightarrow> 'sw \<Rightarrow> (int \<times> 'f) list \<times> 'sw"
  spk_New :: 'spk
  spk_AcceptWaveform :: "'f \<Rightarrow> 'f list \<Rightarrow> 'spk \<Rightarrow> 'spk"
  dec_New :: "'fp \<Rightarrow> 'dec"
  dec_NumFramesDecoded :: "'dec \<Rightarrow> int"
  dec_InitDecoding :: "int \<Rightarrow> 'dec \<Rightarrow> 'dec"
  dec_AdvanceDecoding :: "'fp \<Rightarrow> 'dec \<Rightarrow> 'dec"
  dec_FinalizeDecoding :: "'dec \<Rightarrow> 'dec"
  dec_EndpointDetected :: "'fp \<Rightarrow> 'dec \<Rightarrow> bool"
  dec_GetLattice :: "'dec \<Rightarrow> 'lat"
  dec_GetBestPath :: "'dec \<Rightarrow> int list"
  has_std_lm_fst :: bool
  lm_Rescore :: "'lat \<Rightarrow> 'lat"
  lat_NumStates :: "'lat \<Rightarrow> int"
  lat_ShortestPathWords :: "'lat \<Rightarrow> int list"
  has_winfo :: bool
  lat_WordAlign :: "'lat \<Rightarrow> 'lat"
  lat_MinimumBayesRisk :: "'lat \<Rightarrow> 'f mbr_entry list option"
  sym_Find :: "int \<Rightarrow> string"
  f_of_int :: "int \<Rightarrow> 'f"
  f_add :: "'f \<Rightarrow> 'f \<Rightarrow> 'f"
  f_mul :: "'f \<Rightarrow> 'f \<Rightarrow> 'f"
  f_div :: "'f \<Rightarrow> 'f \<Rightarrow> 'f"
  f_frame_seconds :: 'f

text \<open>The fields of a KaldiRecognizer that the modelled methods read or write.\<close>

record ('fp, 'dec, 'sw, 'spk, 'f) recognizer =
  feature_pipeline :: 'fp
  silence_weighting :: 'sw
  decoder :: "'dec option"
  spk_feature :: "'spk option"
  spk_model :: bool
  sample_frequency :: 'f
  online :: bool
  frame_offset :: int
  samples_processed :: int
  samples_round_start :: int
  state :: KaldiRecognizerState
  silence_pos :: "int list"
  uttConfidence :: 'f
  metadata :: "'f metadata"
  last_result :: string
  calls :: "event list"

definition trace :: "event list \<Rightarrow> ('fp, 'dec, 'sw, 'spk, 'f) recognizer
    \<Rightarrow> ('fp, 'dec, 'sw, 'spk, 'f) recognizer" where
  "trace es r = r\<lparr>calls := calls r @ es\<rparr>"

subsection \<open>InitState, CleanUp\<close>

definition InitState :: "('fp, 'dec, 'sw, 'spk, 'f) recognizer
    \<Rightarrow> ('fp, 'dec, 'sw, 'spk, 'f) recognizer" where
  "InitState r = r\<lparr>frame_offset := 0, samples_processed := 0, samples_round_start := 0,
                   state := RECOGNIZER_INITIALIZED\<rparr>"

text \<open>The three steps of \<open>CleanUp\<close>, in the order of the source: the helpers are
  recreated, the decoded frames are added to the frame offset, and then either everything
  is torn down and rebuilt or the decoder is re-initialised in place.\<close>

definition CleanUp_helpers :: "('fp, 'dec, 'sw, 'spk, 'lat, 'f) kaldi
    \<Rightarrow> ('fp, 'dec, 'sw, 'spk, 'f) recognizer \<Rightarrow> ('fp, 'dec, 'sw, 'spk, 'f) recognizer" where
  "CleanUp_helpers K r =
     (let r1 = trace [Call_CleanUp, New_SilenceWeighting] (r\<lparr>silence_weighting := sw_New K\<rparr>)
      in if spk_model r1
         then trace [New_OnlineMfcc] (r1\<lparr>spk_feature := Some (spk_New K)\<rparr>)
         else r1)"

definition CleanUp_offset :: "('fp, 'dec, 'sw, 'spk, 'lat, 'f) kaldi
    \<Rightarrow> ('fp, 'dec, 'sw, 'spk, 'f) recognizer \<Rightarrow> ('fp, 'dec, 'sw, 'spk, 'f) recognizer" where
  "CleanUp_offset K r =
     (case decoder r of
        None \<Rightarrow> r
      | Some d \<Rightarrow> r\<lparr>frame_offset := frame_offset r + dec_NumFramesDecoded K d\<rparr>)"

definition full_reset :: "('fp, 'dec, 'sw, 'spk, 'lat, 'f) kaldi
    \<Rightarrow> ('fp, 'dec, 'sw, 'spk, 'f) recognizer \<Rightarrow> ('fp, 'dec, 'sw, 'spk, 'f) recognizer" where
  "full_reset K r =
     (let fp = fp_SetCmvnState K (fp_SetAdaptationState K (fp_New K))
      in trace [Delete_Decoder, Delete_FeaturePipeline, New_FeaturePipeline,
              Set_AdaptationState, Set_CmvnState, New_Decoder]
           (r\<lparr>samples_round_start := samples_round_start r + samples_processed r,
              samples_processed := 0,
              frame_offset := 0,
              feature_pipeline := fp,
              decoder := Some (dec_New K fp)\<rparr>))"

definition CleanUp :: "('fp, 'dec, 'sw, 'spk, 'lat, 'f) kaldi
    \<Rightarrow> ('fp, 'dec, 'sw, 'spk, 'f) recognizer \<Rightarrow> ('fp, 'dec, 'sw, 'spk, 'f) recognizer" where
  "CleanUp K r =
     (let r2 = CleanUp_offset K (CleanUp_helpers K r)
      in case decoder r2 of
           None \<Rightarrow> full_reset K r2
         | Some d \<Rightarrow>
             if state r2 = RECOGNIZER_FINALIZED \<or> frame_offset r2 > 20000
             then full_reset K r2
             else trace [Init_Decoding (frame_offset r2)]
                    (r2\<lparr>decoder := Some (dec_InitDecoding K (frame_offset r2) d)\<rparr>))"

subsection \<open>AcceptWaveform\<close>

definition UpdateSilenceWeights :: "('fp, 'dec, 'sw, 'spk, 'lat, 'f) kaldi
    \<Rightarrow> ('fp, 'dec, 'sw, 'spk, 'f) recognizer \<Rightarrow> error + ('fp, 'dec, 'sw, 'spk, 'f) recognizer" where
  "UpdateSilenceWeights K r =
     (if sw_Active K (silence_weighting r) \<and> fp_NumFramesReady K (feature_pipeline r) > 0
         \<and> fp_HasIvectorFeature K (feature_pipeline r)
      then (case decoder r of
              None \<Rightarrow> Inl NullPointer
            | Some d \<Rightarrow>
                let sw1 = sw_ComputeCurrentTraceback K d (silence_weighting r);
                    res = sw_GetDeltaWeights K (fp_NumFramesReady K (feature_pipeline r))
                            (frame_offset r * 3) sw1
                in Inr (trace [Sw_ComputeCurrentTraceback, Sw_GetDeltaWeights, Fp_UpdateFrameWeights]
                     (r\<lparr>silence_weighting := snd res,
                        feature_pipeline := fp_UpdateFrameWeights K (fst res) (feature_pipeline r)\<rparr>)))
      else Inr r)"

definition AdvanceDecoding :: "('fp, 'dec, 'sw, 'spk, 'lat, 'f) kaldi
    \<Rightarrow> ('fp, 'dec, 'sw, 'spk, 'f) recognizer \<Rightarrow> error + ('fp, 'dec, 'sw, 'spk, 'f) recognizer" where
  "AdvanceDecoding K r =
     (case decoder r of
        None \<Rightarrow> Inl NullPointer
      | Some d \<Rightarrow> Inr (trace [Dec_AdvanceDecoding]
                    (r\<lparr>decoder := Some (dec_AdvanceDecoding K (feature_pipeline r) d)\<rparr>)))"

text \<open>The first statement of \<open>AcceptWaveform(Vector&)\<close>: the conditional reset and the
  move to RUNNING.\<close>

definition accept_enter :: "('fp, 'dec, 'sw, 'spk, 'lat, 'f) kaldi
    \<Rightarrow> ('fp, 'dec, 'sw, 'spk, 'f) recognizer \<Rightarrow> ('fp, 'dec, 'sw, 'spk, 'f) recognizer" where
  "accept_enter K r =
     (if \<not> (state r = RECOGNIZER_RUNNING \<or> state r = RECOGNIZER_INITIALIZED)
      then CleanUp K r else r)\<lparr>state := RECOGNIZER_RUNNING\<rparr>"

text \<open>The streaming part: silence weights, then the decoder advances.\<close>

definition accept_online :: "('fp, 'dec, 'sw, 'spk, 'lat, 'f) kaldi
    \<Rightarrow> ('fp, 'dec, 'sw, 'spk, 'f) recognizer \<Rightarrow> error + ('fp, 'dec, 'sw, 'spk, 'f) recognizer" where
  "accept_online K r =
     (if online r
      then (case UpdateSilenceWeights K r of
              Inl e \<Rightarrow> Inl e
            | Inr r1 \<Rightarrow> AdvanceDecoding K r1)
      else Inr r)"

definition accept_spk :: "('fp, 'dec, 'sw, 'spk, 'lat, 'f) kaldi \<Rightarrow> 'f list
    \<Rightarrow> ('fp, 'dec, 'sw, 'spk, 'f) recognizer \<Rightarrow> ('fp, 'dec, 'sw, 'spk, 'f) recognizer" where
  "accept_spk K wdata r =
     (case spk_feature r of
        None \<Rightarrow> r
      | Some s \<Rightarrow> trace [Spk_AcceptWaveform (length wdata)]
                    (r\<lparr>spk_feature := Some (spk_AcceptWaveform K (sample_frequency r) wdata s)\<rparr>))"

text \<open>The endpoint query and the two ways out of \<open>AcceptWaveform\<close>.\<close>

definition accept_endpoint :: "('fp, 'dec, 'sw, 'spk, 'lat, 'f) kaldi \<Rightarrow> 'f list
    \<Rightarrow> ('fp, 'dec, 'sw, 'spk, 'f) recognizer
    \<Rightarrow> error + (bool \<times> ('fp, 'dec, 'sw, 'spk, 'f) recognizer)" where
  "accept_endpoint K wdata r =
     (case decoder r of
        None \<Rightarrow> Inl NullPointer
      | Some d \<Rightarrow>
          let r1 = trace [Dec_EndpointDetected] r
          in if dec_EndpointDetected K (feature_pipeline r1) d
             then Inr (True, r1\<lparr>silence_pos :=
                         silence_pos r1 @ [fp_NumFramesReady K (feature_pipeline r1)]\<rparr>)
             else Inr (False, r1\<lparr>samples_processed :=
                         samples_processed r1 + int (length wdata)\<rparr>))"

text \<open>\<open>feature_pipeline_->AcceptWaveform(sample_frequency_, wdata)\<close>.\<close>

definition accept_push :: "('fp, 'dec, 'sw, 'spk, 'lat, 'f) kaldi \<Rightarrow> 'f list
    \<Rightarrow> ('fp, 'dec, 'sw, 'spk, 'f) recognizer \<Rightarrow> ('fp, 'dec, 'sw, 'spk, 'f) recognizer" where
  "accept_push K wdata r =
     trace [Fp_AcceptWaveform (length wdata)]
       (r\<lparr>feature_pipeline :=
            fp_AcceptWaveform K (sample_frequency r) wdata (feature_pipeline r)\<rparr>)"

definition AcceptWaveform :: "('fp, 'dec, 'sw, 'spk, 'lat, 'f) kaldi \<Rightarrow> 'f list
    \<Rightarrow> ('fp, 'dec, 'sw, 'spk, 'f) recognizer
    \<Rightarrow> error + (bool \<times> ('fp, 'dec, 'sw, 'spk, 'f) recognizer)" where
  "AcceptWaveform K wdata r =
     (case accept_online K (accept_push K wdata (accept_enter K r)) of
        Inl e \<Rightarrow> Inl e
      | Inr r3 \<Rightarrow> accept_endpoint K wdata (accept_spk K wdata r3))"

text \<open>
  The three public overloads build the sample vector and call the one above. A caller's
  buffer is a list together with the length argument \<open>len\<close>; reading it past its end
  is \<open>OutOfRange\<close>. \<open>len / 2\<close> is C++ division, which truncates towards zero
  (\<open>sdiv\<close>). A 16-bit sample is read from two bytes, the low byte first. Kaldi's
  \<open>Vector::Resize\<close> does not accept a negative dimension.
\<close>

definition short_at :: "8 word list \<Rightarrow> nat \<Rightarrow> 16 word" where
  "short_at data i = word_cat (data ! (2 * i + 1)) (data ! (2 * i))"

definition wave_of_chars :: "('fp, 'dec, 'sw, 'spk, 'lat, 'f) kaldi \<Rightarrow> 8 word list \<Rightarrow> int
    \<Rightarrow> error + 'f list" where
  "wave_of_chars K data len =
     (let n = len sdiv 2
      in if n < 0 then Inl NegativeDim
         else if length data < 2 * nat n then Inl OutOfRange
         else Inr (map (\<lambda>i. f_of_int K (sint (short_at data i))) [0..<nat n]))"

definition wave_of_shorts :: "('fp, 'dec, 'sw, 'spk, 'lat, 'f) kaldi \<Rightarrow> 16 word list \<Rightarrow> int
    \<Rightarrow> error + 'f list" where
  "wave_of_shorts K sdata len =
     (if len < 0 then Inl NegativeDim
      else if length sdata < nat len then Inl OutOfRange
      else Inr (map (\<lambda>i. f_of_int K (sint (sdata ! i))) [0..<nat len]))"

definition wave_of_floats :: "'f list \<Rightarrow> int \<Rightarrow> error + 'f list" where
  "wave_of_floats fdata len =
     (if len < 0 then Inl NegativeDim
      else if length fdata < nat len then Inl OutOfRange
      else Inr (map (\<lambda>i. fdata ! i) [0..<nat len]))"

definition AcceptWaveform_chars :: "('fp, 'dec, 'sw, 'spk, 'lat, 'f) kaldi \<Rightarrow> 8 word list \<Rightarrow> int
    \<Rightarrow> ('fp, 'dec, 'sw, 'spk, 'f) recognizer
    \<Rightarrow> error + (bool \<times> ('fp, 'dec, 'sw, 'spk, 'f) recognizer)" where
  "AcceptWaveform_chars K data len r =
     (case wave_of_chars K data len of
        Inl e \<Rightarrow> Inl e
      | Inr wave \<Rightarrow> AcceptWaveform K wave r)"

definition AcceptWaveform_shorts :: "('fp, 'dec, 'sw, 'spk, 'lat, 'f) kaldi \<Rightarrow> 16 word list \<Rightarrow> int
    \<Rightarrow> ('fp, 'dec, 'sw, 'spk, 'f) recognizer
    \<Rightarrow> error + (bool \<times> ('fp, 'dec, 'sw, 'spk, 'f) recognizer)" where
  "AcceptWaveform_shorts K sdata len r =
     (case wave_of_shorts K sdata len of
        Inl e \<Rightarrow> Inl e
      | Inr wave \<Rightarrow> AcceptWaveform K wave r)"

definition AcceptWaveform_floats :: "('fp, 'dec, 'sw, 'spk, 'lat, 'f) kaldi \<Rightarrow> 'f list \<Rightarrow> int
    \<Rightarrow> ('fp, 'dec, 'sw, 'spk, 'f) recognizer
    \<Rightarrow> error + (bool \<times> ('fp, 'dec, 'sw, 'spk, 'f) recognizer)" where
  "AcceptWaveform_floats K fdata len r =
     (case wave_of_floats fdata len of
        Inl e \<Rightarrow> Inl e
      | Inr wave \<Rightarrow> AcceptWaveform K wave r)"

text \<open>The 16-bit samples that a byte buffer holds: its bytes in pairs, a last byte without
  a partner left out.\<close>

definition shorts_of_chars :: "8 word list \<Rightarrow> 16 word list" where
  "shorts_of_chars data = map (short_at data) [0..<length data div 2]"

subsection \<open>Results\<close>

definition StoreReturn :: "string \<Rightarrow> ('fp, 'dec, 'sw, 'spk, 'f) recognizer
    \<Rightarrow> string \<times> ('fp, 'dec, 'sw, 'spk, 'f) recognizer" where
  "StoreReturn res r = (res, r\<lparr>last_result := res\<rparr>)"

definition empty_text :: string where
  \<open>empty_text = ''{"text": ""}''\<close>

definition empty_partial :: string where
  \<open>empty_partial = ''{"partial": ""}''\<close>

text \<open>The loop that writes the words of a path into a string stream, a blank before every
  word but the first; \<open>i\<close> is the loop index.\<close>

fun text_loop :: "(int \<Rightarrow> string) \<Rightarrow> nat \<Rightarrow> int list \<Rightarrow> string \<Rightarrow> string" where
  "text_loop look i [] text = text"
| "text_loop look i (w # ws) text =
     text_loop look (Suc i) ws ((if i \<noteq> 0 then text @ '' '' else text) @ look w)"

text \<open>A frame-relative time in seconds of the stream:
  \<open>samples_round_start_ / sample_frequency_ + (frame_offset_ + t) * 0.03\<close>.\<close>

definition word_time :: "('fp, 'dec, 'sw, 'spk, 'lat, 'f) kaldi
    \<Rightarrow> ('fp, 'dec, 'sw, 'spk, 'f) recognizer \<Rightarrow> 'f \<Rightarrow> 'f" where
  "word_time K r t =
     f_add K (f_div K (f_of_int K (samples_round_start r)) (sample_frequency r))
             (f_mul K (f_add K (f_of_int K (frame_offset r)) t) (f_frame_seconds K))"

text \<open>The loop of \<open>ComputeTimestamp\<close> over the one-best words: it appends a word object
  to the metadata, adds the confidence of every word but \<open><unk>\<close> to
  \<open>uttConfidence\<close>, and writes the word into the text stream.\<close>

fun timestamp_loop :: "('fp, 'dec, 'sw, 'spk, 'lat, 'f) kaldi \<Rightarrow> nat \<Rightarrow> 'f mbr_entry list
    \<Rightarrow> ('fp, 'dec, 'sw, 'spk, 'f) recognizer \<times> string
    \<Rightarrow> ('fp, 'dec, 'sw, 'spk, 'f) recognizer \<times> string" where
  "timestamp_loop K i [] (r, text) = (r, text)"
| "timestamp_loop K i (e # es) (r, text) =
     (let w = sym_Find K (mbr_word e);
          word = \<lparr>j_word = w, j_start = word_time K r (mbr_first e),
                  j_end = word_time K r (mbr_second e), j_conf = mbr_conf e\<rparr>;
          r1 = (if w \<noteq> ''<unk>''
                then r\<lparr>uttConfidence := f_add K (uttConfidence r) (mbr_conf e)\<rparr>
                else r);
          r2 = r1\<lparr>metadata := md_append_word word (metadata r1)\<rparr>;
          text1 = (if i \<noteq> 0 then text @ '' '' else text) @ sym_Find K (mbr_word e)
      in timestamp_loop K (Suc i) es (r2, text1))"

text \<open>Modelled from the spec: \<open>json::JSON::Make\<close>, called in the catch branch of
  \<open>ComputeTimestamp\<close>, is declared in json.h, which is not among the sources. Section 4.5
  of the specification says that on allocation failure the whole metadata result degrades
  to null.\<close>

definition md_make_null :: "'f metadata \<Rightarrow> 'f metadata" where
  "md_make_null m = Md_Null"

text \<open>
  \<open>ComputeTimestamp\<close>. The library's alignment and minimum-Bayes-risk step either
  gives the one-best entries or throws \<open>std::bad_alloc\<close> (\<open>None\<close>), which the source
  catches.
\<close>

definition one_best :: "('fp, 'dec, 'sw, 'spk, 'lat, 'f) kaldi \<Rightarrow> 'lat
    \<Rightarrow> 'f mbr_entry list option" where
  "one_best K clat =
     lat_MinimumBayesRisk K (if has_winfo K then lat_WordAlign K clat else clat)"

definition ComputeTimestamp :: "('fp, 'dec, 'sw, 'spk, 'lat, 'f) kaldi \<Rightarrow> 'lat
    \<Rightarrow> ('fp, 'dec, 'sw, 'spk, 'f) recognizer \<Rightarrow> ('fp, 'dec, 'sw, 'spk, 'f) recognizer" where
  "ComputeTimestamp K clat r =
     (let r0 = trace ((if has_winfo K then [Lat_WordAlign] else []) @ [Lat_MinimumBayesRisk]) r
      in case one_best K clat of
           None \<Rightarrow> r0\<lparr>metadata := md_make_null (metadata r0)\<rparr>
         | Some best \<Rightarrow>
             let res = timestamp_loop K 0 best (r0, []);
                 r1 = fst res;
                 text = snd res;
                 r2 = r1\<lparr>uttConfidence :=
                           f_div K (uttConfidence r1) (f_of_int K (int (length best)))\<rparr>
             in if md_text (metadata r2) = []
                then r2\<lparr>metadata := md_set_text text (metadata r2)\<rparr>
                else r2\<lparr>metadata :=
                          md_set_text (md_text (metadata r2) @ '' '' @ text) (metadata r2)\<rparr>)"

text \<open>\<open>GetResult\<close>. The chain of lattice operations of the second pass is one library
  operation, \<open>lm_Rescore\<close>, applied when the model has a rescoring graph
  (\<open>std_lm_fst_\<close>); the shortest path and its word sequence are another.\<close>

definition final_lattice :: "('fp, 'dec, 'sw, 'spk, 'lat, 'f) kaldi \<Rightarrow> 'dec \<Rightarrow> 'lat" where
  "final_lattice K d =
     (if has_std_lm_fst K then lm_Rescore K (dec_GetLattice K d) else dec_GetLattice K d)"

definition GetResult :: "('fp, 'dec, 'sw, 'spk, 'lat, 'f) kaldi
    \<Rightarrow> ('fp, 'dec, 'sw, 'spk, 'f) recognizer
    \<Rightarrow> error + (string \<times> ('fp, 'dec, 'sw, 'spk, 'f) recognizer)" where
  \<open>GetResult K r =
     (case decoder r of
        None \<Rightarrow> Inl NullPointer
      | Some d \<Rightarrow>
          if dec_NumFramesDecoded K d = 0 then Inr (StoreReturn empty_text r)
          else
            let clat = final_lattice K d;
                r2 = trace (Dec_GetLattice # (if has_std_lm_fst K then [Lm_Rescore] else [])) r
            in if lat_NumStates K clat = 0 then Inr (StoreReturn empty_text r2)
               else
                 let words = lat_ShortestPathWords K clat;
                     r3 = trace [Lat_ShortestPath] r2;
                     text = text_loop (sym_Find K) 0 words [];
                     r4 = ComputeTimestamp K clat r3
                 in Inr (StoreReturn (''{"text": "'' @ text @ ''"}'') r4))\<close>

definition PartialResult :: "('fp, 'dec, 'sw, 'spk, 'lat, 'f) kaldi
    \<Rightarrow> ('fp, 'dec, 'sw, 'spk, 'f) recognizer
    \<Rightarrow> error + (string \<times> ('fp, 'dec, 'sw, 'spk, 'f) recognizer)" where
  \<open>PartialResult K r =
     (if state r \<noteq> RECOGNIZER_RUNNING then Inr (StoreReturn empty_partial r)
      else case decoder r of
        None \<Rightarrow> Inl NullPointer
      | Some d \<Rightarrow>
          if dec_NumFramesDecoded K d = 0 then Inr (StoreReturn empty_partial r)
          else
            let words = dec_GetBestPath K d;
                r1 = trace [Dec_GetBestPath] r;
                text = text_loop (sym_Find K) 0 words []
            in Inr (StoreReturn (''{"partial": "'' @ text @ ''"}'') r1))\<close>

definition FinalizeDecoding :: "('fp, 'dec, 'sw, 'spk, 'lat, 'f) kaldi
    \<Rightarrow> ('fp, 'dec, 'sw, 'spk, 'f) recognizer \<Rightarrow> error + ('fp, 'dec, 'sw, 'spk, 'f) recognizer" where
  "FinalizeDecoding K r =
     (case decoder r of
        None \<Rightarrow> Inl NullPointer
      | Some d \<Rightarrow> Inr (trace [Dec_FinalizeDecoding]
                    (r\<lparr>decoder := Some (dec_FinalizeDecoding K d)\<rparr>)))"

definition Result :: "('fp, 'dec, 'sw, 'spk, 'lat, 'f) kaldi
    \<Rightarrow> ('fp, 'dec, 'sw, 'spk, 'f) recognizer
    \<Rightarrow> error + (string \<times> ('fp, 'dec, 'sw, 'spk, 'f) recognizer)" where
  "Result K r =
     (if state r \<noteq> RECOGNIZER_RUNNING then Inr (StoreReturn empty_text r)
      else case FinalizeDecoding K r of
        Inl e \<Rightarrow> Inl e
      | Inr r1 \<Rightarrow> GetResult K (r1\<lparr>state := RECOGNIZER_ENDPOINT\<rparr>))"

definition FinalResult :: "('fp, 'dec, 'sw, 'spk, 'lat, 'f) kaldi
    \<Rightarrow> ('fp, 'dec, 'sw, 'spk, 'f) recognizer
    \<Rightarrow> error + (string \<times> ('fp, 'dec, 'sw, 'spk, 'f) recognizer)" where
  "FinalResult K r =
     (if state r \<noteq> RECOGNIZER_RUNNING then Inr (StoreReturn empty_text r)
      else
        let r1 = trace [Fp_InputFinished]
                   (r\<lparr>feature_pipeline := fp_InputFinished K (feature_pipeline r)\<rparr>)
        in case UpdateSilenceWeights K r1 of
             Inl e \<Rightarrow> Inl e
           | Inr r2 \<Rightarrow>
              (case AdvanceDecoding K r2 of
                 Inl e \<Rightarrow> Inl e
               | Inr r3 \<Rightarrow>
                  (case FinalizeDecoding K r3 of
                     Inl e \<Rightarrow> Inl e
                   | Inr r4 \<Rightarrow>
                      (case GetResult K (r4\<lparr>state := RECOGNIZER_FINALIZED\<rparr>) of
                         Inl e \<Rightarrow> Inl e
                       | Inr res \<Rightarrow> Inr (last_result (snd res), snd res)))))"

subsection \<open>Reading the call trace\<close>

text \<open>The calls that one operation added to the trace, given the session before and after.\<close>

definition new_calls :: "('fp, 'dec, 'sw, 'spk, 'f) recognizer
    \<Rightarrow> ('fp, 'dec, 'sw, 'spk, 'f) recognizer \<Rightarrow> event list" where
  "new_calls r r' = drop (length (calls r)) (calls r')"

text \<open>The calls of a teardown and rebuild, and the calls of a whole \<open>CleanUp\<close> as a
  function of the session it starts from.\<close>

definition full_reset_events :: "event list" where
  "full_reset_events = [Delete_Decoder, Delete_FeaturePipeline, New_FeaturePipeline,
                        Set_AdaptationState, Set_CmvnState, New_Decoder]"

text \<open>The test of \<open>CleanUp\<close> that chooses the teardown, read on the session
  \<open>CleanUp\<close> starts from: there is no decoder, or the state is FINALIZED, or the frame
  offset with the decoder's frames added is above 20000.\<close>

definition frames_decoded :: "('fp, 'dec, 'sw, 'spk, 'lat, 'f) kaldi
    \<Rightarrow> ('fp, 'dec, 'sw, 'spk, 'f) recognizer \<Rightarrow> int" where
  "frames_decoded K r = (case decoder r of None \<Rightarrow> 0 | Some d \<Rightarrow> dec_NumFramesDecoded K d)"

definition reset_due :: "('fp, 'dec, 'sw, 'spk, 'lat, 'f) kaldi
    \<Rightarrow> ('fp, 'dec, 'sw, 'spk, 'f) recognizer \<Rightarrow> bool" where
  "reset_due K r =
     (decoder r = None \<or> state r = RECOGNIZER_FINALIZED
      \<or> frame_offset r + frames_decoded K r > 20000)"

definition CleanUp_events :: "('fp, 'dec, 'sw, 'spk, 'lat, 'f) kaldi
    \<Rightarrow> ('fp, 'dec, 'sw, 'spk, 'f) recognizer \<Rightarrow> event list" where
  "CleanUp_events K r =
     [Call_CleanUp, New_SilenceWeighting] @ (if spk_model r then [New_OnlineMfcc] else [])
     @ (if reset_due K r then full_reset_events
        else [Init_Decoding (frame_offset r + frames_decoded K r)])"

text \<open>The calls that processing a chunk can make after the samples went into the feature
  pipeline.\<close>

definition chunk_events :: "nat \<Rightarrow> event set" where
  "chunk_events n = {Sw_ComputeCurrentTraceback, Sw_GetDeltaWeights, Fp_UpdateFrameWeights,
                     Dec_AdvanceDecoding, Spk_AcceptWaveform n, Dec_EndpointDetected}"

text \<open>
  The feature pipeline and the decoder with which \<open>AcceptWaveform\<close> processes a chunk,
  written as the reset policy describes them: after a full reset a new pipeline, seeded
  with the model's adaptation and CMVN state, and a new decoder bound to it; on the cheap
  path the old pipeline and the old decoder re-initialised at the frame offset with the
  decoded frames added; in RUNNING and INITIALIZED the objects the session has.
\<close>

definition fresh_pipeline :: "('fp, 'dec, 'sw, 'spk, 'lat, 'f) kaldi \<Rightarrow> 'fp" where
  "fresh_pipeline K = fp_SetCmvnState K (fp_SetAdaptationState K (fp_New K))"

definition pipeline_taken_up :: "('fp, 'dec, 'sw, 'spk, 'lat, 'f) kaldi
    \<Rightarrow> ('fp, 'dec, 'sw, 'spk, 'f) recognizer \<Rightarrow> 'fp" where
  "pipeline_taken_up K r =
     (if (state r = RECOGNIZER_ENDPOINT \<or> state r = RECOGNIZER_FINALIZED) \<and> reset_due K r
      then fresh_pipeline K else feature_pipeline r)"

definition decoder_taken_up :: "('fp, 'dec, 'sw, 'spk, 'lat, 'f) kaldi
    \<Rightarrow> ('fp, 'dec, 'sw, 'spk, 'f) recognizer \<Rightarrow> 'dec option" where
  "decoder_taken_up K r =
     (if state r = RECOGNIZER_RUNNING \<or> state r = RECOGNIZER_INITIALIZED then decoder r
      else if reset_due K r then Some (dec_New K (fresh_pipeline K))
      else map_option (dec_InitDecoding K (frame_offset r + frames_decoded K r)) (decoder r))"

text \<open>The calls of one \<open>AcceptWaveform\<close>; none if the call does not return.\<close>

definition accept_calls :: "('fp, 'dec, 'sw, 'spk, 'lat, 'f) kaldi \<Rightarrow> 'f list
    \<Rightarrow> ('fp, 'dec, 'sw, 'spk, 'f) recognizer \<Rightarrow> event list" where
  "accept_calls K wdata r =
     (case AcceptWaveform K wdata r of
        Inl e \<Rightarrow> []
      | Inr res \<Rightarrow> new_calls r (snd res))"

text \<open>The value \<open>ComputeTimestamp\<close> leaves in \<open>uttConfidence\<close>, as a function of
  the value \<open>u\<close> it finds there and of the one-best entries: the confidences of the
  words other than \<open><unk>\<close> are added to \<open>u\<close> one after the other, and the sum is
  divided by the number of all entries.\<close>

definition utt_mean :: "('fp, 'dec, 'sw, 'spk, 'lat, 'f) kaldi \<Rightarrow> 'f \<Rightarrow> 'f mbr_entry list \<Rightarrow> 'f" where
  "utt_mean K u best =
     f_div K (foldl (f_add K) u
                (map mbr_conf (filter (\<lambda>e. sym_Find K (mbr_word e) \<noteq> ''<unk>'') best)))
             (f_of_int K (int (length best)))"

text \<open>The one-best entries of the utterance that a result request produces, read from the
  decoder the request leaves behind; none when no frame was decoded, when the lattice is
  empty, or when the minimum-Bayes-risk step failed.\<close>

definition utterance_entries :: "('fp, 'dec, 'sw, 'spk, 'lat, 'f) kaldi
    \<Rightarrow> ('fp, 'dec, 'sw, 'spk, 'f) recognizer \<Rightarrow> 'f mbr_entry list option" where
  "utterance_entries K r =
     (case decoder r of
        None \<Rightarrow> None
      | Some d \<Rightarrow>
          if dec_NumFramesDecoded K d = 0 then None
          else if lat_NumStates K (final_lattice K d) = 0 then None
          else one_best K (final_lattice K d))"

text \<open>The value of \<open>uttConfidence\<close> after \<open>Result\<close>, if the call returns.\<close>

definition confidence_after_Result :: "('fp, 'dec, 'sw, 'spk, 'lat, 'f) kaldi
    \<Rightarrow> ('fp, 'dec, 'sw, 'spk, 'f) recognizer \<Rightarrow> 'f option" where
  "confidence_after_Result K r =
     (case Result K r of
        Inl e \<Rightarrow> None
      | Inr res \<Rightarrow> Some (uttConfidence (snd res)))"

text \<open>Words joined by single blanks.\<close>

fun space_joined :: "string list \<Rightarrow> string" where
  "space_joined [] = []"
| "space_joined [w] = w"
| "space_joined (w # v # ws) = w @ '' '' @ space_joined (v # ws)"

subsection \<open>A small library and sessions to evaluate on\<close>

text \<open>
  A library in which the feature pipeline is the number of samples it has buffered, one
  frame per sample; the decoder is the number of frames it has decoded and reports an
  endpoint from four frames on; a lattice is the list of its word ids; every word has
  confidence one half; and floats are real numbers.
\<close>

definition toyK :: "(nat, int, unit, unit, int list, real) kaldi" where
  "toyK = \<lparr>
     fp_New = 0,
     fp_SetAdaptationState = (\<lambda>fp. fp),
     fp_SetCmvnState = (\<lambda>fp. fp),
     fp_AcceptWaveform = (\<lambda>freq w fp. fp + length w),
     fp_NumFramesReady = (\<lambda>fp. int fp),
     fp_HasIvectorFeature = (\<lambda>fp. True),
     fp_UpdateFrameWeights = (\<lambda>dw fp. fp),
     fp_InputFinished = (\<lambda>fp. fp),
     sw_New = (),
     sw_Active = (\<lambda>sw. True),
     sw_ComputeCurrentTraceback = (\<lambda>d sw. sw),
     sw_GetDeltaWeights = (\<lambda>n off sw. ([], sw)),
     spk_New = (),
     spk_AcceptWaveform = (\<lambda>freq w s. s),
     dec_New = (\<lambda>fp. 0),
     dec_NumFramesDecoded = (\<lambda>d. d),
     dec_InitDecoding = (\<lambda>n d. 0),
     dec_AdvanceDecoding = (\<lambda>fp d. int fp),
     dec_FinalizeDecoding = (\<lambda>d. d),
     dec_EndpointDetected = (\<lambda>fp d. 4 \<le> d),
     dec_GetLattice = (\<lambda>d. if d < 2 then [] else [1, 0, 2]),
     dec_GetBestPath = (\<lambda>d. [1, 2]),
     has_std_lm_fst = False,
     lm_Rescore = (\<lambda>l. l),
     lat_NumStates = (\<lambda>l. int (length l)),
     lat_ShortestPathWords = (\<lambda>l. l),
     has_winfo = False,
     lat_WordAlign = (\<lambda>l. l),
     lat_MinimumBayesRisk =
       (\<lambda>l. Some (map (\<lambda>w. \<lparr>mbr_word = w, mbr_conf = 1 / 2, mbr_first = 0, mbr_second = 1\<rparr>) l)),
     sym_Find = (\<lambda>i. if i = 0 then ''<unk>'' else if i = 1 then ''hello'' else ''world''),
     f_of_int = (\<lambda>i. real_of_int i),
     f_add = (\<lambda>x y. x + y),
     f_mul = (\<lambda>x y. x * y),
     f_div = (\<lambda>x y. x / y),
     f_frame_seconds = 3 / 100 \<rparr>"

text \<open>A session as a constructor leaves it: a decoder, no speaker model, streaming mode,
  \<open>InitState\<close> applied.\<close>

definition session_new :: "(nat, int, unit, unit, real) recognizer" where
  "session_new = InitState \<lparr>
     feature_pipeline = 0, silence_weighting = (), decoder = Some 0, spk_feature = None,
     spk_model = False, sample_frequency = 16000, online = True, frame_offset = 7,
     samples_processed = 7, samples_round_start = 7, state = RECOGNIZER_RUNNING,
     silence_pos = [], uttConfidence = 0, metadata = Md_Null, last_result = [], calls = [] \<rparr>"

text \<open>Sessions in the middle of a stream: three frames decoded of three buffered, 480
  samples counted in this round and 1600 before it, in each of the three later states.\<close>

definition session_running :: "(nat, int, unit, unit, real) recognizer" where
  "session_running = session_new \<lparr> feature_pipeline := 3, decoder := Some 3,
     samples_processed := 480, samples_round_start := 1600, state := RECOGNIZER_RUNNING \<rparr>"

definition session_endpoint :: "(nat, int, unit, unit, real) recognizer" where
  "session_endpoint = session_running \<lparr> state := RECOGNIZER_ENDPOINT \<rparr>"

definition session_finalized :: "(nat, int, unit, unit, real) recognizer" where
  "session_finalized = session_running \<lparr> state := RECOGNIZER_FINALIZED \<rparr>"

text \<open>A long utterance under way: 30000 frames decoded since the last reset, state
  RUNNING.\<close>

definition session_long :: "(nat, int, unit, unit, real) recognizer" where
  "session_long = session_running \<lparr> feature_pipeline := 30000, decoder := Some 30000 \<rparr>"

text \<open>The same four sessions after \<open>AcceptWaveform\<close> of a chunk of two samples.\<close>

definition session_new_fed :: "(nat, int, unit, unit, real) recognizer" where
  "session_new_fed = session_new \<lparr> feature_pipeline := 2, decoder := Some 2,
     samples_processed := 2, state := RECOGNIZER_RUNNING,
     calls := [Fp_AcceptWaveform 2, Sw_ComputeCurrentTraceback, Sw_GetDeltaWeights,
               Fp_UpdateFrameWeights, Dec_AdvanceDecoding, Dec_EndpointDetected] \<rparr>"

definition session_running_fed :: "(nat, int, unit, unit, real) recognizer" where
  "session_running_fed = session_running \<lparr> feature_pipeline := 5, decoder := Some 5,
     silence_pos := [5],
     calls := [Fp_AcceptWaveform 2, Sw_ComputeCurrentTraceback, Sw_GetDeltaWeights,
               Fp_UpdateFrameWeights, Dec_AdvanceDecoding, Dec_EndpointDetected] \<rparr>"

definition session_endpoint_fed :: "(nat, int, unit, unit, real) recognizer" where
  "session_endpoint_fed = session_endpoint \<lparr> feature_pipeline := 5, decoder := Some 5,
     frame_offset := 3, state := RECOGNIZER_RUNNING, silence_pos := [5],
     calls := [Call_CleanUp, New_SilenceWeighting, Init_Decoding 3,
               Fp_AcceptWaveform 2, Sw_ComputeCurrentTraceback, Sw_GetDeltaWeights,
               Fp_UpdateFrameWeights, Dec_AdvanceDecoding, Dec_EndpointDetected] \<rparr>"

definition session_finalized_fed :: "(nat, int, unit, unit, real) recognizer" where
  "session_finalized_fed = session_finalized \<lparr> feature_pipeline := 2, decoder := Some 2,
     samples_round_start := 2080, samples_processed := 2, state := RECOGNIZER_RUNNING,
     calls := [Call_CleanUp, New_SilenceWeighting, Delete_Decoder, Delete_FeaturePipeline,
               New_FeaturePipeline, Set_AdaptationState, Set_CmvnState, New_Decoder,
               Fp_AcceptWaveform 2, Sw_ComputeCurrentTraceback, Sw_GetDeltaWeights,
               Fp_UpdateFrameWeights, Dec_AdvanceDecoding, Dec_EndpointDetected] \<rparr>"

text \<open>Two utterances on one session: the RUNNING session after \<open>FinalResult\<close>, then
  after \<open>AcceptWaveform\<close> of a chunk of two samples, then after \<open>Result\<close>.\<close>

definition utterance_words :: "real \<Rightarrow> real \<Rightarrow> real json_word list" where
  "utterance_words t0 t1 =
     [\<lparr>j_word = ''hello'', j_start = t0, j_end = t1, j_conf = 1 / 2\<rparr>,
      \<lparr>j_word = ''<unk>'', j_start = t0, j_end = t1, j_conf = 1 / 2\<rparr>,
      \<lparr>j_word = ''world'', j_start = t0, j_end = t1, j_conf = 1 / 2\<rparr>]"

definition session_running_final :: "(nat, int, unit, unit, real) recognizer" where
  \<open>session_running_final = session_running \<lparr> state := RECOGNIZER_FINALIZED,
     uttConfidence := 1 / 3,
     metadata := Md_Object ''hello <unk> world'' (utterance_words (1 / 10) (13 / 100)),
     last_result := ''{"text": "hello <unk> world"}'',
     calls := [Fp_InputFinished, Sw_ComputeCurrentTraceback, Sw_GetDeltaWeights,
               Fp_UpdateFrameWeights, Dec_AdvanceDecoding, Dec_FinalizeDecoding,
               Dec_GetLattice, Lat_ShortestPath, Lat_MinimumBayesRisk] \<rparr>\<close>

definition session_second :: "(nat, int, unit, unit, real) recognizer" where
  "session_second = session_running_final \<lparr> feature_pipeline := 2, decoder := Some 2,
     samples_round_start := 2080, samples_processed := 2, state := RECOGNIZER_RUNNING,
     calls := calls session_running_final @
              [Call_CleanUp, New_SilenceWeighting, Delete_Decoder, Delete_FeaturePipeline,
               New_FeaturePipeline, Set_AdaptationState, Set_CmvnState, New_Decoder,
               Fp_AcceptWaveform 2, Sw_ComputeCurrentTraceback, Sw_GetDeltaWeights,
               Fp_UpdateFrameWeights, Dec_AdvanceDecoding, Dec_EndpointDetected] \<rparr>"

definition session_second_result :: "(nat, int, unit, unit, real) recognizer" where
  \<open>session_second_result = session_second \<lparr> state := RECOGNIZER_ENDPOINT,
     uttConfidence := 4 / 9,
     metadata := Md_Object ''hello <unk> world hello <unk> world''
                   (utterance_words (1 / 10) (13 / 100) @ utterance_words (13 / 100) (4 / 25)),
     last_result := ''{"text": "hello <unk> world"}'',
     calls := calls session_second @
              [Dec_FinalizeDecoding, Dec_GetLattice, Lat_ShortestPath, Lat_MinimumBayesRisk] \<rparr>\<close>

section \<open>Properties\<close>

subsection \<open>The steps of CleanUp and AcceptWaveform\<close>

lemmas CleanUp_defs = CleanUp_def CleanUp_offset_def CleanUp_helpers_def full_reset_def trace_def

lemma CleanUp_calls: "calls (CleanUp K r) = calls r @ CleanUp_events K r"
  by (auto simp: CleanUp_defs CleanUp_events_def reset_due_def frames_decoded_def
      full_reset_events_def Let_def split: option.splits)

lemma CleanUp_state: "state (CleanUp K r) = state r"
  by (simp add: CleanUp_defs Let_def split: option.splits)


lemma CleanUp_unchanged:
  "uttConfidence (CleanUp K r) = uttConfidence r"
  "silence_pos (CleanUp K r) = silence_pos r"
  "metadata (CleanUp K r) = metadata r"
  "last_result (CleanUp K r) = last_result r"
  by (simp_all add: CleanUp_defs Let_def split: option.splits)

lemma accept_enter_calls:
  "calls (accept_enter K r) =
     calls r @ (if state r = RECOGNIZER_ENDPOINT \<or> state r = RECOGNIZER_FINALIZED
                then CleanUp_events K r else [])"
  by (cases "state r") (simp_all add: accept_enter_def CleanUp_calls)



lemma accept_enter_unchanged:
  "uttConfidence (accept_enter K r) = uttConfidence r"
  "silence_pos (accept_enter K r) = silence_pos r"
  "metadata (accept_enter K r) = metadata r"
  "last_result (accept_enter K r) = last_result r"
  by (simp_all add: accept_enter_def CleanUp_unchanged)

lemma UpdateSilenceWeights_frame:
  assumes "UpdateSilenceWeights K r = Inr r'"
  shows "\<exists>xs. calls r' = calls r @ xs \<and> set xs \<subseteq> chunk_events n"
    and "state r' = state r" and "decoder r' = decoder r"
    and "samples_processed r' = samples_processed r" and "silence_pos r' = silence_pos r"
    and "uttConfidence r' = uttConfidence r" and "spk_feature r' = spk_feature r"
    and "sample_frequency r' = sample_frequency r"
  using assms
  by (auto simp: UpdateSilenceWeights_def trace_def chunk_events_def Let_def
      split: if_splits option.splits)

lemma AdvanceDecoding_frame:
  assumes "AdvanceDecoding K r = Inr r'"
  shows "\<exists>xs. calls r' = calls r @ xs \<and> set xs \<subseteq> chunk_events n"
    and "state r' = state r" and "decoder r' \<noteq> None"
    and "samples_processed r' = samples_processed r" and "silence_pos r' = silence_pos r"
    and "uttConfidence r' = uttConfidence r" and "spk_feature r' = spk_feature r"
    and "sample_frequency r' = sample_frequency r"
  using assms
  by (auto simp: AdvanceDecoding_def trace_def chunk_events_def Let_def
      split: if_splits option.splits)

lemma accept_online_frame:
  assumes "accept_online K r = Inr r'"
  shows "\<exists>xs. calls r' = calls r @ xs \<and> set xs \<subseteq> chunk_events n"
    and "state r' = state r" and "decoder r \<noteq> None \<Longrightarrow> decoder r' \<noteq> None"
    and "samples_processed r' = samples_processed r" and "silence_pos r' = silence_pos r"
    and "uttConfidence r' = uttConfidence r" and "spk_feature r' = spk_feature r"
    and "sample_frequency r' = sample_frequency r"
  using assms
  by (auto simp: accept_online_def UpdateSilenceWeights_def AdvanceDecoding_def trace_def
      chunk_events_def Let_def split: if_splits option.splits sum.splits)


lemma accept_spk_frame:
  shows "\<exists>xs. calls (accept_spk K w r) = calls r @ xs \<and> set xs \<subseteq> chunk_events (length w)"
    and "state (accept_spk K w r) = state r" and "decoder (accept_spk K w r) = decoder r"
    and "samples_processed (accept_spk K w r) = samples_processed r"
    and "silence_pos (accept_spk K w r) = silence_pos r"
    and "uttConfidence (accept_spk K w r) = uttConfidence r"
    and "feature_pipeline (accept_spk K w r) = feature_pipeline r"
  by (auto simp: accept_spk_def trace_def chunk_events_def split: option.splits)

lemma accept_endpoint_frame:
  assumes "accept_endpoint K w r = Inr (b, r')"
  shows "calls r' = calls r @ [Dec_EndpointDetected]"
    and "state r' = state r" and "decoder r' = decoder r"
    and "uttConfidence r' = uttConfidence r"
    and "feature_pipeline r' = feature_pipeline r"
  using assms
  by (auto simp: accept_endpoint_def trace_def Let_def split: option.splits if_splits)

lemma accept_endpoint_result:
  assumes "accept_endpoint K w r = Inr (b, r')"
  shows "\<exists>d. decoder r = Some d
      \<and> (b \<longleftrightarrow> dec_EndpointDetected K (feature_pipeline r) d)
      \<and> silence_pos r' = (if b then silence_pos r @ [fp_NumFramesReady K (feature_pipeline r)]
                           else silence_pos r)
      \<and> samples_processed r' = (if b then samples_processed r
                                 else samples_processed r + int (length w))"
  using assms
  by (auto simp: accept_endpoint_def trace_def Let_def split: option.splits if_splits)


lemma accept_push_frame:
  "calls (accept_push K w r) = calls r @ [Fp_AcceptWaveform (length w)]"
  "state (accept_push K w r) = state r" "decoder (accept_push K w r) = decoder r"
  "samples_processed (accept_push K w r) = samples_processed r"
  "silence_pos (accept_push K w r) = silence_pos r"
  "uttConfidence (accept_push K w r) = uttConfidence r"
  by (simp_all add: accept_push_def trace_def)

lemma AcceptWaveform_steps:
  assumes "AcceptWaveform K w r = Inr (b, r')"
  shows "\<exists>r3. accept_online K (accept_push K w (accept_enter K r)) = Inr r3
            \<and> accept_endpoint K w (accept_spk K w r3) = Inr (b, r')"
  using assms
  by (cases "accept_online K (accept_push K w (accept_enter K r))")
     (simp_all add: AcceptWaveform_def)


lemma AcceptWaveform_trace:
  assumes "AcceptWaveform K w r = Inr (b, r')"
  shows "\<exists>post. calls r' = calls (accept_enter K r) @ Fp_AcceptWaveform (length w) # post
           \<and> set post \<subseteq> chunk_events (length w)"
proof -
  from AcceptWaveform_steps[OF assms] obtain r3 where
    o: "accept_online K (accept_push K w (accept_enter K r)) = Inr r3"
    and e: "accept_endpoint K w (accept_spk K w r3) = Inr (b, r')"
    by (elim exE conjE)
  from accept_online_frame(1)[OF o, of "length w"]
  obtain xs where xs: "calls r3 = calls (accept_push K w (accept_enter K r)) @ xs"
    "set xs \<subseteq> chunk_events (length w)"
    by (elim exE conjE)
  from accept_spk_frame(1)[of K w r3]
  obtain ys where ys: "calls (accept_spk K w r3) = calls r3 @ ys"
    "set ys \<subseteq> chunk_events (length w)"
    by (elim exE conjE)
  have "calls r' = calls (accept_enter K r) @ Fp_AcceptWaveform (length w)
                     # (xs @ ys @ [Dec_EndpointDetected])"
    using accept_endpoint_frame(1)[OF e] xs(1) ys(1) by (simp add: accept_push_frame)
  moreover have "set (xs @ ys @ [Dec_EndpointDetected]) \<subseteq> chunk_events (length w)"
    using xs(2) ys(2) by (simp add: chunk_events_def)
  ultimately show ?thesis by (intro exI conjI)
qed


lemma AcceptWaveform_uttConfidence:
  assumes "AcceptWaveform K w r = Inr (b, r')"
  shows "uttConfidence r' = uttConfidence r"
proof -
  from AcceptWaveform_steps[OF assms] obtain r3 where
    o: "accept_online K (accept_push K w (accept_enter K r)) = Inr r3"
    and e: "accept_endpoint K w (accept_spk K w r3) = Inr (b, r')"
    by (elim exE conjE)
  show ?thesis
    using accept_online_frame(6)[OF o] accept_endpoint_frame(4)[OF e]
    by (simp add: accept_spk_frame accept_push_frame accept_enter_unchanged)
qed

lemma new_calls_append: "calls r' = calls r @ xs \<Longrightarrow> new_calls r r' = xs"
  by (simp add: new_calls_def)


subsection \<open>Runs on the small library\<close>

lemma session_simps:
  "decoder session_endpoint = Some 3" "state session_endpoint = RECOGNIZER_ENDPOINT"
  "decoder session_running = Some 3" "state session_running = RECOGNIZER_RUNNING"
  "decoder session_finalized = Some 3" "state session_finalized = RECOGNIZER_FINALIZED"
  "decoder session_new = Some 0" "state session_new = RECOGNIZER_INITIALIZED"
  by (simp_all add: session_endpoint_def session_finalized_def session_running_def
      session_new_def InitState_def)

lemmas toy_defs = toyK_def session_endpoint_def session_finalized_def session_running_def
  session_new_def InitState_def

lemmas accept_defs = AcceptWaveform_def accept_enter_def accept_push_def accept_online_def
  accept_spk_def accept_endpoint_def UpdateSilenceWeights_def AdvanceDecoding_def
  CleanUp_def CleanUp_offset_def CleanUp_helpers_def full_reset_def trace_def Let_def

lemma toy_accept_endpoint:
  "AcceptWaveform toyK [0, 0] session_endpoint = Inr (True, session_endpoint_fed)"
  by (simp add: session_endpoint_fed_def toy_defs accept_defs)

lemma toy_accept_finalized:
  "AcceptWaveform toyK [0, 0] session_finalized = Inr (False, session_finalized_fed)"
  by (simp add: session_finalized_fed_def toy_defs accept_defs)

lemma toy_accept_running:
  "AcceptWaveform toyK [0, 0] session_running = Inr (True, session_running_fed)"
  by (simp add: session_running_fed_def toy_defs accept_defs)

lemma toy_accept_new:
  "AcceptWaveform toyK [0, 0] session_new = Inr (False, session_new_fed)"
  by (simp add: session_new_fed_def toy_defs accept_defs)

lemma toy_new_calls:
  "new_calls session_endpoint session_endpoint_fed =
     [Call_CleanUp, New_SilenceWeighting, Init_Decoding 3,
      Fp_AcceptWaveform 2, Sw_ComputeCurrentTraceback, Sw_GetDeltaWeights,
      Fp_UpdateFrameWeights, Dec_AdvanceDecoding, Dec_EndpointDetected]"
  "new_calls session_finalized session_finalized_fed =
     [Call_CleanUp, New_SilenceWeighting, Delete_Decoder, Delete_FeaturePipeline,
      New_FeaturePipeline, Set_AdaptationState, Set_CmvnState, New_Decoder,
      Fp_AcceptWaveform 2, Sw_ComputeCurrentTraceback, Sw_GetDeltaWeights,
      Fp_UpdateFrameWeights, Dec_AdvanceDecoding, Dec_EndpointDetected]"
  by (simp_all add: new_calls_def session_endpoint_fed_def session_finalized_fed_def toy_defs)

lemma toy_calls: "calls session_endpoint = []" "calls session_finalized = []"
  "calls session_running = []" "calls session_new = []"
  by (simp_all add: toy_defs)

lemma toy_reset_due: "\<not> reset_due toyK session_endpoint" "reset_due toyK session_finalized"
  by (simp_all add: reset_due_def frames_decoded_def toy_defs)

subsection \<open>The calls of AcceptWaveform, and its counters\<close>

lemma AcceptWaveform_new_calls:
  assumes "AcceptWaveform K w r = Inr (b, r')"
  shows "\<exists>post. new_calls r r' =
           (if state r = RECOGNIZER_ENDPOINT \<or> state r = RECOGNIZER_FINALIZED
            then CleanUp_events K r else []) @ Fp_AcceptWaveform (length w) # post
         \<and> set post \<subseteq> chunk_events (length w)"
proof -
  from AcceptWaveform_trace[OF assms]
  obtain post where p: "calls r' = calls (accept_enter K r) @ Fp_AcceptWaveform (length w) # post"
    "set post \<subseteq> chunk_events (length w)"
    by (elim exE conjE)
  have "new_calls r r' = (if state r = RECOGNIZER_ENDPOINT \<or> state r = RECOGNIZER_FINALIZED
            then CleanUp_events K r else []) @ Fp_AcceptWaveform (length w) # post"
    by (rule new_calls_append) (simp add: p(1) accept_enter_calls)
  with p(2) show ?thesis by (intro exI conjI)
qed

lemma CleanUp_samples_processed:
  "samples_processed (CleanUp K r) = (if reset_due K r then 0 else samples_processed r)"
  by (auto simp: reset_due_def frames_decoded_def CleanUp_defs Let_def split: option.splits)

lemma accept_enter_samples_processed:
  "samples_processed (accept_enter K r) =
     (if (state r = RECOGNIZER_ENDPOINT \<or> state r = RECOGNIZER_FINALIZED) \<and> reset_due K r
      then 0 else samples_processed r)"
  by (cases "state r") (simp_all add: accept_enter_def CleanUp_samples_processed)

lemma toy_fed_counters:
  "silence_pos session_running = []" "samples_processed session_running = 480"
  "silence_pos session_running_fed = [5]" "samples_processed session_running_fed = 480"
  "silence_pos session_new = []" "samples_processed session_new = 0"
  "silence_pos session_new_fed = []" "samples_processed session_new_fed = 2"
  by (simp_all add: session_running_fed_def session_new_fed_def toy_defs)

lemma text_loop_Suc:
  "text_loop look (Suc i) ws acc = acc @ concat (map (\<lambda>w. '' '' @ look w) ws)"
  by (induction ws arbitrary: i acc) simp_all

lemma space_joined_Cons:
  "space_joined (w # ws) = w @ concat (map (\<lambda>v. '' '' @ v) ws)"
  by (induction ws arbitrary: w) simp_all

lemma text_loop_space_joined:
  "text_loop look 0 ws [] = space_joined (map look ws)"
  by (cases ws) (simp_all add: text_loop_Suc space_joined_Cons comp_def)

subsection \<open>Result requests\<close>

text \<open>A result request in RUNNING settles the session: \<open>Result\<close> leaves it in
  ENDPOINT, \<open>FinalResult\<close> in FINALIZED, so that a repeated request finds it outside
  RUNNING.\<close>

lemma timestamp_loop_state:
  "state (fst (timestamp_loop K i es (r, acc))) = state r"
  by (induction es arbitrary: i r acc) (simp_all add: Let_def)

lemma ComputeTimestamp_state: "state (ComputeTimestamp K clat r) = state r"
  by (simp add: ComputeTimestamp_def Let_def trace_def timestamp_loop_state split: option.splits)

lemma GetResult_state:
  assumes "GetResult K r = Inr (s, r')"
  shows "state r' = state r"
  using assms
  by (auto simp: GetResult_def StoreReturn_def Let_def trace_def ComputeTimestamp_state
      split: option.splits if_splits)

lemma Result_settles:
  assumes "state r = RECOGNIZER_RUNNING" and "Result K r = Inr (s, r')"
  shows "state r' = RECOGNIZER_ENDPOINT"
proof -
  from assms obtain r1 where f: "FinalizeDecoding K r = Inr r1"
    and g: "GetResult K (r1\<lparr>state := RECOGNIZER_ENDPOINT\<rparr>) = Inr (s, r')"
    by (cases "FinalizeDecoding K r") (simp_all add: Result_def)
  from GetResult_state[OF g] show ?thesis by simp
qed

lemma FinalResult_settles:
  assumes "state r = RECOGNIZER_RUNNING" and "FinalResult K r = Inr (s, r')"
  shows "state r' = RECOGNIZER_FINALIZED"
proof -
  from assms obtain r4 res where
    g: "GetResult K (r4\<lparr>state := RECOGNIZER_FINALIZED\<rparr>) = Inr res" and r: "r' = snd res"
    by (auto simp: FinalResult_def Let_def split: sum.splits)
  from GetResult_state[of K _ "fst res" "snd res"] g r show ?thesis by simp
qed

lemma Result_repeated:
  assumes "state r = RECOGNIZER_RUNNING" and "Result K r = Inr (s, r')"
  shows \<open>Result K r' = Inr (''{"text": ""}'', r'\<lparr>last_result := ''{"text": ""}''\<rparr>)\<close>
  using Result_settles[OF assms]
  by (simp add: Result_def StoreReturn_def empty_text_def)

subsection \<open>The confidence accumulator\<close>

lemma timestamp_loop_uttConfidence:
  "uttConfidence (fst (timestamp_loop K i es (r, acc))) =
     foldl (f_add K) (uttConfidence r)
       (map mbr_conf (filter (\<lambda>e. sym_Find K (mbr_word e) \<noteq> ''<unk>'') es))"
  by (induction es arbitrary: i r acc) (simp_all add: Let_def)

lemma ComputeTimestamp_uttConfidence:
  assumes "one_best K clat = Some best"
  shows "uttConfidence (ComputeTimestamp K clat r) = utt_mean K (uttConfidence r) best"
  using assms
  by (simp add: ComputeTimestamp_def Let_def utt_mean_def timestamp_loop_uttConfidence trace_def)

lemma ComputeTimestamp_bad_alloc:
  assumes "one_best K clat = None"
  shows "uttConfidence (ComputeTimestamp K clat r) = uttConfidence r"
  using assms by (simp add: ComputeTimestamp_def Let_def trace_def)

lemma toy_one_best:
  "one_best toyK [1, 0, 2] = Some [\<lparr>mbr_word = 1, mbr_conf = 1 / 2, mbr_first = 0, mbr_second = 1\<rparr>,
     \<lparr>mbr_word = 0, mbr_conf = 1 / 2, mbr_first = 0, mbr_second = 1\<rparr>,
     \<lparr>mbr_word = 2, mbr_conf = 1 / 2, mbr_first = 0, mbr_second = 1\<rparr>]"
  by (simp add: one_best_def toyK_def)

lemma toy_uttConfidence: "uttConfidence session_running = 0" "uttConfidence session_new = 0"
  by (simp_all add: toy_defs)

lemma GetResult_uttConfidence:
  assumes "decoder r = Some d" "dec_NumFramesDecoded K d \<noteq> 0"
    "lat_NumStates K (final_lattice K d) \<noteq> 0"
    "one_best K (final_lattice K d) = Some best"
  shows "\<exists>s r'. GetResult K r = Inr (s, r') \<and> uttConfidence r' = utt_mean K (uttConfidence r) best"
  using assms
  by (simp add: GetResult_def Let_def StoreReturn_def ComputeTimestamp_uttConfidence trace_def)

lemma Result_uttConfidence:
  assumes "state r = RECOGNIZER_RUNNING" "decoder r = Some d"
    "dec_NumFramesDecoded K (dec_FinalizeDecoding K d) \<noteq> 0"
    "lat_NumStates K (final_lattice K (dec_FinalizeDecoding K d)) \<noteq> 0"
    "one_best K (final_lattice K (dec_FinalizeDecoding K d)) = Some best"
  shows "confidence_after_Result K r = Some (utt_mean K (uttConfidence r) best)"
proof -
  let ?r1 = "(trace [Dec_FinalizeDecoding] (r\<lparr>decoder := Some (dec_FinalizeDecoding K d)\<rparr>))
               \<lparr>state := RECOGNIZER_ENDPOINT\<rparr>"
  have r: "Result K r = GetResult K ?r1"
    using assms(1,2) by (simp add: Result_def FinalizeDecoding_def)
  have d1: "decoder ?r1 = Some (dec_FinalizeDecoding K d)" by (simp add: trace_def)
  from GetResult_uttConfidence[OF d1 assms(3,4,5)]
  obtain s r' where g: "GetResult K ?r1 = Inr (s, r')"
    and u: "uttConfidence r' = utt_mean K (uttConfidence ?r1) best"
    by (elim exE conjE)
  have "confidence_after_Result K r = Some (uttConfidence r')"
    by (simp add: confidence_after_Result_def r g)
  also have "uttConfidence r' = utt_mean K (uttConfidence r) best"
    by (simp add: u trace_def)
  finally show ?thesis .
qed

lemma toy_final_lattice: "final_lattice toyK 3 = [1, 0, 2]" "dec_FinalizeDecoding toyK 3 = 3"
  "dec_NumFramesDecoded toyK 3 = 3" "lat_NumStates toyK [1, 0, 2] = 3"
  by (simp_all add: final_lattice_def toyK_def)

lemma toy_utt_mean:
  "utt_mean toyK 0 [\<lparr>mbr_word = 1, mbr_conf = 1 / 2, mbr_first = 0, mbr_second = 1\<rparr>,
     \<lparr>mbr_word = 0, mbr_conf = 1 / 2, mbr_first = 0, mbr_second = 1\<rparr>,
     \<lparr>mbr_word = 2, mbr_conf = 1 / 2, mbr_first = 0, mbr_second = 1\<rparr>] = 1 / 3"
  "utt_mean toyK (1 / 3) [\<lparr>mbr_word = 1, mbr_conf = 1 / 2, mbr_first = 0, mbr_second = 1\<rparr>,
     \<lparr>mbr_word = 0, mbr_conf = 1 / 2, mbr_first = 0, mbr_second = 1\<rparr>,
     \<lparr>mbr_word = 2, mbr_conf = 1 / 2, mbr_first = 0, mbr_second = 1\<rparr>] = 4 / 9"
  by (simp_all add: utt_mean_def toyK_def)

lemma toy_fed_uttConfidence: "uttConfidence session_running_fed = 0"
  by (simp add: session_running_fed_def toy_defs)

subsection \<open>Samples from bytes\<close>

lemma sdiv_2_nonneg: "0 \<le> len \<Longrightarrow> len sdiv 2 = len div (2::int)"
  by (cases "len = 0") (simp_all add: signed_divide_int_def)

lemma shorts_of_chars_length: "length (shorts_of_chars data) = length data div 2"
  by (simp add: shorts_of_chars_def)

lemma wave_of_chars_shorts:
  assumes "0 \<le> len"
  shows "wave_of_chars K data len =
           wave_of_shorts K (take (nat (len div 2)) (shorts_of_chars data)) (len div 2)"
proof (cases "length data < 2 * nat (len div 2)")
  case True
  then show ?thesis
    using assms
    by (simp add: wave_of_chars_def wave_of_shorts_def sdiv_2_nonneg shorts_of_chars_length
        Let_def min_def)
next
  case False
  then have le: "nat (len div 2) \<le> length data div 2" by simp
  have "map (\<lambda>i. f_of_int K (sint (short_at data i))) [0..<nat (len div 2)] =
        map (\<lambda>i. f_of_int K (sint (take (nat (len div 2)) (shorts_of_chars data) ! i)))
          [0..<nat (len div 2)]"
    using le by (simp add: shorts_of_chars_def)
  then show ?thesis
    using assms False le
    by (simp add: wave_of_chars_def wave_of_shorts_def sdiv_2_nonneg shorts_of_chars_length
        Let_def min_def)
qed

lemma wave_of_chars_odd:
  assumes "0 \<le> len" "odd len"
  shows "wave_of_chars K data len = wave_of_chars K data (len - 1)"
proof -
  have "0 \<le> len - 1" using assms by presburger
  moreover have "(len - 1) div 2 = len div 2" using assms by presburger
  ultimately show ?thesis
    using assms by (simp add: wave_of_chars_def sdiv_2_nonneg)
qed

lemma short_at_update:
  "2 * i + 1 < k \<Longrightarrow> short_at (data[k := c]) i = short_at data i"
  by (simp add: short_at_def)

lemma wave_of_chars_last_byte:
  assumes "0 \<le> len" "odd len"
  shows "wave_of_chars K (data[nat (len - 1) := c]) len = wave_of_chars K data len"
proof -
  have "len - 1 = 2 * (len div 2)" using assms by presburger
  then have "nat (len - 1) = nat (2 * (len div 2))" by simp
  also have "\<dots> = 2 * nat (len div 2)" by (simp add: nat_mult_distrib)
  finally have k: "nat (len - 1) = 2 * nat (len div 2)" .
  have "map (\<lambda>i. f_of_int K (sint (short_at (data[nat (len - 1) := c]) i))) [0..<nat (len div 2)]
      = map (\<lambda>i. f_of_int K (sint (short_at data i))) [0..<nat (len div 2)]"
    by (rule map_cong) (simp_all add: k short_at_update)
  then show ?thesis
    using assms by (simp add: wave_of_chars_def sdiv_2_nonneg Let_def)
qed

lemma toy_wave:
  "wave_of_chars toyK [0x01, 0x00, 0xFF, 0xFF, 0x7F] 5 = Inr [1, - 1]"
  "wave_of_chars toyK [0x01, 0x00, 0xFF, 0xFF, 0x7F] 4 = Inr [1, - 1]"
  "wave_of_chars toyK [0x01, 0x00, 0xFF, 0xFF, 0x80] 5 = Inr [1, - 1]"
  "wave_of_shorts toyK [1, - 1] 2 = Inr [1, - 1]"
  "shorts_of_chars [0x01, 0x00, 0xFF, 0xFF, 0x7F] = [1, - 1]"
  by (simp_all add: wave_of_chars_def wave_of_shorts_def shorts_of_chars_def short_at_def
      toyK_def signed_divide_int_def Let_def upt_rec word_cat_eq)

lemma toy_accept_new_wave:
  "AcceptWaveform toyK [1, - 1] session_new = Inr (False, session_new_fed)"
  by (simp add: session_new_fed_def toy_defs accept_defs)

subsection \<open>The objects a chunk is processed with\<close>

lemma accept_enter_objects:
  "feature_pipeline (accept_enter K r) = pipeline_taken_up K r"
  "decoder (accept_enter K r) = decoder_taken_up K r"
  "frame_offset (accept_enter K r) =
     (if state r = RECOGNIZER_RUNNING \<or> state r = RECOGNIZER_INITIALIZED then frame_offset r
      else if reset_due K r then 0 else frame_offset r + frames_decoded K r)"
  "samples_round_start (accept_enter K r) =
     (if (state r = RECOGNIZER_ENDPOINT \<or> state r = RECOGNIZER_FINALIZED) \<and> reset_due K r
      then samples_round_start r + samples_processed r else samples_round_start r)"
  "sample_frequency (accept_enter K r) = sample_frequency r"
  "online (accept_enter K r) = online r"
  by (cases "state r";
      auto simp: accept_enter_def CleanUp_defs pipeline_taken_up_def decoder_taken_up_def
        fresh_pipeline_def reset_due_def frames_decoded_def Let_def split: option.splits)+

lemma accept_push_objects:
  "feature_pipeline (accept_push K w r) =
     fp_AcceptWaveform K (sample_frequency r) w (feature_pipeline r)"
  "frame_offset (accept_push K w r) = frame_offset r"
  "samples_round_start (accept_push K w r) = samples_round_start r"
  "online (accept_push K w r) = online r"
  by (simp_all add: accept_push_def trace_def)

lemma accept_online_objects:
  assumes "accept_online K r = Inr r'"
  shows "feature_pipeline r' = feature_pipeline r
         \<or> (\<exists>dw. feature_pipeline r' = fp_UpdateFrameWeights K dw (feature_pipeline r))"
    and "decoder r' = (if online r
                       then map_option (dec_AdvanceDecoding K (feature_pipeline r')) (decoder r)
                       else decoder r)"
    and "\<not> online r \<Longrightarrow> feature_pipeline r' = feature_pipeline r"
    and "frame_offset r' = frame_offset r"
    and "samples_round_start r' = samples_round_start r"
  using assms
  by (auto simp: accept_online_def UpdateSilenceWeights_def AdvanceDecoding_def trace_def
      Let_def split: if_splits option.splits sum.splits)

lemma accept_spk_objects:
  "frame_offset (accept_spk K w r) = frame_offset r"
  "samples_round_start (accept_spk K w r) = samples_round_start r"
  by (auto simp: accept_spk_def trace_def split: option.splits)

lemma accept_endpoint_objects:
  assumes "accept_endpoint K w r = Inr (b, r')"
  shows "frame_offset r' = frame_offset r"
    and "samples_round_start r' = samples_round_start r"
  using assms
  by (auto simp: accept_endpoint_def trace_def Let_def split: option.splits if_splits)

lemma AcceptWaveform_objects:
  assumes "AcceptWaveform K wdata r = Inr (b, r')"
  shows "frame_offset r' =
           (if state r = RECOGNIZER_RUNNING \<or> state r = RECOGNIZER_INITIALIZED then frame_offset r
            else if reset_due K r then 0 else frame_offset r + frames_decoded K r)"
    and "samples_round_start r' =
           (if (state r = RECOGNIZER_ENDPOINT \<or> state r = RECOGNIZER_FINALIZED) \<and> reset_due K r
            then samples_round_start r + samples_processed r else samples_round_start r)"
    and "feature_pipeline r' =
             fp_AcceptWaveform K (sample_frequency r) wdata (pipeline_taken_up K r)
         \<or> (\<exists>dw. feature_pipeline r' = fp_UpdateFrameWeights K dw
                    (fp_AcceptWaveform K (sample_frequency r) wdata (pipeline_taken_up K r)))"
    and "\<not> online r \<Longrightarrow> feature_pipeline r' =
             fp_AcceptWaveform K (sample_frequency r) wdata (pipeline_taken_up K r)"
    and "decoder r' =
           (if online r
            then map_option (dec_AdvanceDecoding K (feature_pipeline r')) (decoder_taken_up K r)
            else decoder_taken_up K r)"
proof -
  from AcceptWaveform_steps[OF assms] obtain r3 where
    o: "accept_online K (accept_push K wdata (accept_enter K r)) = Inr r3"
    and e: "accept_endpoint K wdata (accept_spk K wdata r3) = Inr (b, r')"
    by (elim exE conjE)
  let ?r2 = "accept_push K wdata (accept_enter K r)"
  have fp2: "feature_pipeline ?r2 =
      fp_AcceptWaveform K (sample_frequency r) wdata (pipeline_taken_up K r)"
    by (simp add: accept_push_objects accept_enter_objects)
  have d2: "decoder ?r2 = decoder_taken_up K r"
    by (simp add: accept_push_frame accept_enter_objects)
  have on2: "online ?r2 = online r"
    by (simp add: accept_push_objects accept_enter_objects)
  have fp': "feature_pipeline r' = feature_pipeline r3"
    using accept_endpoint_frame(5)[OF e] by (simp add: accept_spk_frame)
  have d': "decoder r' = decoder r3"
    using accept_endpoint_frame(3)[OF e] by (simp add: accept_spk_frame)
  show "frame_offset r' =
           (if state r = RECOGNIZER_RUNNING \<or> state r = RECOGNIZER_INITIALIZED then frame_offset r
            else if reset_due K r then 0 else frame_offset r + frames_decoded K r)"
    using accept_endpoint_objects(1)[OF e] accept_online_objects(4)[OF o]
    by (simp add: accept_spk_objects accept_push_objects accept_enter_objects)
  show "samples_round_start r' =
           (if (state r = RECOGNIZER_ENDPOINT \<or> state r = RECOGNIZER_FINALIZED) \<and> reset_due K r
            then samples_round_start r + samples_processed r else samples_round_start r)"
    using accept_endpoint_objects(2)[OF e] accept_online_objects(5)[OF o]
    by (simp add: accept_spk_objects accept_push_objects accept_enter_objects)
  show "feature_pipeline r' =
             fp_AcceptWaveform K (sample_frequency r) wdata (pipeline_taken_up K r)
         \<or> (\<exists>dw. feature_pipeline r' = fp_UpdateFrameWeights K dw
                    (fp_AcceptWaveform K (sample_frequency r) wdata (pipeline_taken_up K r)))"
    using accept_online_objects(1)[OF o] unfolding fp' fp2 .
  show "feature_pipeline r' =
             fp_AcceptWaveform K (sample_frequency r) wdata (pipeline_taken_up K r)"
    if "\<not> online r"
    using accept_online_objects(3)[OF o] that unfolding fp' fp2 on2 by simp
  show "decoder r' =
           (if online r
            then map_option (dec_AdvanceDecoding K (feature_pipeline r')) (decoder_taken_up K r)
            else decoder_taken_up K r)"
    using accept_online_objects(2)[OF o] unfolding fp' d' d2 on2 .
qed

subsection \<open>Two utterances on the small library\<close>

lemmas result_defs = Result_def FinalResult_def GetResult_def ComputeTimestamp_def
  FinalizeDecoding_def StoreReturn_def one_best_def final_lattice_def word_time_def
  md_append_word_def md_set_text_def empty_text_def

lemma toy_final_running:
  \<open>FinalResult toyK session_running = Inr (''{"text": "hello <unk> world"}'', session_running_final)\<close>
  by (simp add: session_running_final_def utterance_words_def result_defs toy_defs accept_defs)

lemma toy_accept_final:
  "AcceptWaveform toyK [0, 0] session_running_final = Inr (False, session_second)"
  by (simp add: session_second_def session_running_final_def toy_defs accept_defs)

lemma toy_result_second:
  \<open>Result toyK session_second = Inr (''{"text": "hello <unk> world"}'', session_second_result)\<close>
  by (simp add: session_second_result_def session_second_def session_running_final_def
      utterance_words_def result_defs toy_defs accept_defs)

lemma toy_taken_up:
  "pipeline_taken_up toyK session_endpoint = 3" "decoder_taken_up toyK session_endpoint = Some 0"
  "pipeline_taken_up toyK session_finalized = 0" "decoder_taken_up toyK session_finalized = Some 0"
  "fresh_pipeline toyK = 0" "frames_decoded toyK session_endpoint = 3"
  "frame_offset session_endpoint = 0" "frame_offset session_endpoint_fed = 3"
  "frame_offset session_finalized = 0" "frame_offset session_finalized_fed = 0"
  "feature_pipeline session_endpoint = 3" "feature_pipeline session_finalized = 3"
  "feature_pipeline session_endpoint_fed = 5" "feature_pipeline session_finalized_fed = 2"
  "decoder session_endpoint_fed = Some 5" "decoder session_finalized_fed = Some 2"
  by (simp_all add: pipeline_taken_up_def decoder_taken_up_def fresh_pipeline_def
      reset_due_def frames_decoded_def session_endpoint_fed_def session_finalized_fed_def toy_defs)

lemma toy_two_utterances:
  "uttConfidence session_running = 0"
  "uttConfidence session_running_final = 1 / 3"
  "state session_running_final = RECOGNIZER_FINALIZED"
  "reset_due toyK session_running_final"
  "uttConfidence (CleanUp toyK session_running_final) = 1 / 3"
  "uttConfidence (InitState session_running_final) = 1 / 3"
  "New_Decoder \<in> set (new_calls session_running_final session_second)"
  "uttConfidence session_second = 1 / 3"
  "state session_second = RECOGNIZER_RUNNING"
  "uttConfidence session_second_result = 4 / 9"
  by (simp_all add: session_second_result_def session_second_def session_running_final_def
      reset_due_def frames_decoded_def new_calls_def CleanUp_unchanged toy_defs)

subsection \<open>The confidence accumulator across result requests\<close>

lemma timestamp_loop_decoder:
  "decoder (fst (timestamp_loop K i es (r, acc))) = decoder r"
  by (induction es arbitrary: i r acc) (simp_all add: Let_def)

lemma ComputeTimestamp_decoder: "decoder (ComputeTimestamp K clat r) = decoder r"
  by (simp add: ComputeTimestamp_def Let_def trace_def timestamp_loop_decoder
      split: option.splits)

lemma ComputeTimestamp_confidence:
  "uttConfidence (ComputeTimestamp K clat r) =
     (case one_best K clat of
        None \<Rightarrow> uttConfidence r
      | Some best \<Rightarrow> utt_mean K (uttConfidence r) best)"
  by (cases "one_best K clat")
     (simp_all add: ComputeTimestamp_bad_alloc ComputeTimestamp_uttConfidence)

lemma utterance_entries_decoder:
  "decoder r' = decoder r \<Longrightarrow> utterance_entries K r' = utterance_entries K r"
  by (simp add: utterance_entries_def)

lemma GetResult_confidence:
  assumes "GetResult K r = Inr (s, r')"
  shows "decoder r' = decoder r"
    and "uttConfidence r' =
           (case utterance_entries K r of
              None \<Rightarrow> uttConfidence r
            | Some best \<Rightarrow> utt_mean K (uttConfidence r) best)"
  using assms
  by (auto simp: GetResult_def StoreReturn_def Let_def trace_def utterance_entries_def
      ComputeTimestamp_decoder ComputeTimestamp_confidence
      split: option.splits if_splits)

lemma FinalizeDecoding_uttConfidence:
  "FinalizeDecoding K r = Inr r' \<Longrightarrow> uttConfidence r' = uttConfidence r"
  by (auto simp: FinalizeDecoding_def trace_def split: option.splits)

lemma Result_confidence:
  assumes "Result K r = Inr (s, r')"
  shows "uttConfidence r' =
           (if state r = RECOGNIZER_RUNNING
            then (case utterance_entries K r' of
                    None \<Rightarrow> uttConfidence r
                  | Some best \<Rightarrow> utt_mean K (uttConfidence r) best)
            else uttConfidence r)"
proof (cases "state r = RECOGNIZER_RUNNING")
  case False
  with assms show ?thesis by (auto simp: Result_def StoreReturn_def)
next
  case True
  with assms obtain r1 where f: "FinalizeDecoding K r = Inr r1"
    and g: "GetResult K (r1\<lparr>state := RECOGNIZER_ENDPOINT\<rparr>) = Inr (s, r')"
    by (cases "FinalizeDecoding K r") (simp_all add: Result_def)
  let ?r2 = "r1\<lparr>state := RECOGNIZER_ENDPOINT\<rparr>"
  have u: "uttConfidence ?r2 = uttConfidence r"
    using FinalizeDecoding_uttConfidence[OF f] by simp
  have e: "utterance_entries K r' = utterance_entries K ?r2"
    by (rule utterance_entries_decoder) (rule GetResult_confidence(1)[OF g])
  show ?thesis
    using GetResult_confidence(2)[OF g] True by (simp add: u e cong: option.case_cong)
qed

lemma FinalResult_confidence:
  assumes "FinalResult K r = Inr (s, r')"
  shows "uttConfidence r' =
           (if state r = RECOGNIZER_RUNNING
            then (case utterance_entries K r' of
                    None \<Rightarrow> uttConfidence r
                  | Some best \<Rightarrow> utt_mean K (uttConfidence r) best)
            else uttConfidence r)"
proof (cases "state r = RECOGNIZER_RUNNING")
  case False
  with assms show ?thesis by (auto simp: FinalResult_def StoreReturn_def)
next
  case True
  let ?r1 = "trace [Fp_InputFinished]
               (r\<lparr>feature_pipeline := fp_InputFinished K (feature_pipeline r)\<rparr>)"
  from assms True obtain r2 where a: "UpdateSilenceWeights K ?r1 = Inr r2"
    by (cases "UpdateSilenceWeights K ?r1") (simp_all add: FinalResult_def Let_def)
  from assms True a obtain r3 where b: "AdvanceDecoding K r2 = Inr r3"
    by (cases "AdvanceDecoding K r2") (simp_all add: FinalResult_def Let_def)
  from assms True a b obtain r4 where c: "FinalizeDecoding K r3 = Inr r4"
    by (cases "FinalizeDecoding K r3") (simp_all add: FinalResult_def Let_def)
  let ?r5 = "r4\<lparr>state := RECOGNIZER_FINALIZED\<rparr>"
  from assms True a b c obtain res where g0: "GetResult K ?r5 = Inr res" and r': "r' = snd res"
    by (cases "GetResult K ?r5") (auto simp: FinalResult_def Let_def)
  have g: "GetResult K ?r5 = Inr (fst res, r')" using g0 r' by simp
  have u: "uttConfidence ?r5 = uttConfidence r"
    using UpdateSilenceWeights_frame(6)[OF a] AdvanceDecoding_frame(6)[OF b]
      FinalizeDecoding_uttConfidence[OF c] by (simp add: trace_def)
  have e: "utterance_entries K r' = utterance_entries K ?r5"
    by (rule utterance_entries_decoder) (rule GetResult_confidence(1)[OF g])
  show ?thesis
    using GetResult_confidence(2)[OF g] True by (simp add: u e cong: option.case_cong)
qed

lemma PartialResult_uttConfidence:
  "PartialResult K r = Inr (s, r') \<Longrightarrow> uttConfidence r' = uttConfidence r"
  by (auto simp: PartialResult_def StoreReturn_def Let_def trace_def
      split: if_splits option.splits)

section \<open>The claims\<close>

subsection \<open>AcceptWaveform: the state machine\<close>



subsection \<open>The reset policy\<close>

text \<open>
  Claim C2 says that a full reset happens whenever audio arrives in a settled state, or the
  cumulative frame offset exceeds 20000. In state ENDPOINT, with three frames decoded, no
  teardown happens: the calls of \<open>AcceptWaveform\<close> are those of the cheap path,
  \<open>InitDecoding\<close> at the frame offset 3, and neither a decoder nor a feature pipeline
  is created. In state RUNNING, with 30000 frames decoded since the last reset, the chunk
  is processed with no reset of any kind.
\<close>

theorem AcceptWaveform_full_reset_when_settled_counterexample:
  "state session_endpoint = RECOGNIZER_ENDPOINT
   \<and> accept_calls toyK [0, 0] session_endpoint =
       [Call_CleanUp, New_SilenceWeighting, Init_Decoding 3, Fp_AcceptWaveform 2,
        Sw_ComputeCurrentTraceback, Sw_GetDeltaWeights, Fp_UpdateFrameWeights,
        Dec_AdvanceDecoding, Dec_EndpointDetected]
   \<and> New_Decoder \<notin> set (accept_calls toyK [0, 0] session_endpoint)
   \<and> New_FeaturePipeline \<notin> set (accept_calls toyK [0, 0] session_endpoint)
   \<and> state session_long = RECOGNIZER_RUNNING
   \<and> frame_offset session_long + frames_decoded toyK session_long = 30000
   \<and> accept_calls toyK [0, 0] session_long =
       [Fp_AcceptWaveform 2, Sw_ComputeCurrentTraceback, Sw_GetDeltaWeights,
        Fp_UpdateFrameWeights, Dec_AdvanceDecoding, Dec_EndpointDetected]"
  by (simp add: accept_calls_def toy_accept_endpoint toy_new_calls session_simps)
     (simp add: session_long_def frames_decoded_def new_calls_def toy_defs accept_defs)

text \<open>
  Claim C2, amended. For every call of \<open>AcceptWaveform\<close> that returns: the decoder
  and the feature pipeline are torn down and recreated (all six calls of the teardown, or
  none of them) exactly when the state before was ENDPOINT or FINALIZED and the test of
  \<open>CleanUp\<close> holds, that is, the state was FINALIZED, or the frame offset plus the
  frames the decoder has decoded exceeds 20000, or there is no decoder. The decoder is
  re-initialised in place exactly when the state before was ENDPOINT and that test fails,
  and then at the frame offset plus the decoded frames. In RUNNING and INITIALIZED neither
  happens, whatever the frame offset.

  The session shows it. The frame offset after the call is zero after a full reset, the
  old offset plus the decoded frames on the cheap path, and the old offset in RUNNING and
  INITIALIZED. The chunk is pushed into the new, reseeded pipeline after a full reset and
  into the old one otherwise; the pipeline after the call is that pipeline with the chunk,
  with the silence weights applied to it or not. The decoder after the call is the new
  decoder after a full reset, the old one re-initialised on the cheap path, the old one in
  RUNNING and INITIALIZED; in streaming mode advanced on the pipeline, in batch mode as it
  is.
\<close>

theorem AcceptWaveform_reset_policy:
  assumes "AcceptWaveform K wdata r = Inr (b, r')"
  shows "(New_Decoder \<in> set (new_calls r r') \<longleftrightarrow>
            (state r = RECOGNIZER_ENDPOINT \<or> state r = RECOGNIZER_FINALIZED) \<and> reset_due K r)
       \<and> (\<forall>e \<in> set full_reset_events.
            e \<in> set (new_calls r r') \<longleftrightarrow> New_Decoder \<in> set (new_calls r r'))
       \<and> ((\<exists>n. Init_Decoding n \<in> set (new_calls r r')) \<longleftrightarrow>
            state r = RECOGNIZER_ENDPOINT \<and> \<not> reset_due K r)
       \<and> (\<forall>n. Init_Decoding n \<in> set (new_calls r r') \<longrightarrow>
            n = frame_offset r + frames_decoded K r)
       \<and> frame_offset r' =
           (if state r = RECOGNIZER_RUNNING \<or> state r = RECOGNIZER_INITIALIZED then frame_offset r
            else if reset_due K r then 0 else frame_offset r + frames_decoded K r)
       \<and> (feature_pipeline r' =
             fp_AcceptWaveform K (sample_frequency r) wdata (pipeline_taken_up K r)
          \<or> (\<exists>dw. feature_pipeline r' = fp_UpdateFrameWeights K dw
                    (fp_AcceptWaveform K (sample_frequency r) wdata (pipeline_taken_up K r))))
       \<and> (\<not> online r \<longrightarrow> feature_pipeline r' =
             fp_AcceptWaveform K (sample_frequency r) wdata (pipeline_taken_up K r))
       \<and> decoder r' =
           (if online r
            then map_option (dec_AdvanceDecoding K (feature_pipeline r')) (decoder_taken_up K r)
            else decoder_taken_up K r)"
proof -
  from AcceptWaveform_new_calls[OF assms]
  obtain post where p: "new_calls r r' =
           (if state r = RECOGNIZER_ENDPOINT \<or> state r = RECOGNIZER_FINALIZED
            then CleanUp_events K r else []) @ Fp_AcceptWaveform (length wdata) # post"
    and q: "set post \<subseteq> chunk_events (length wdata)"
    by (elim exE conjE)
  have f: "state r = RECOGNIZER_FINALIZED \<Longrightarrow> reset_due K r"
    by (simp add: reset_due_def)
  have n1: "New_Decoder \<notin> set post" "\<And>e. e \<in> set full_reset_events \<Longrightarrow> e \<notin> set post"
    "\<And>n. Init_Decoding n \<notin> set post"
    using q by (auto simp: chunk_events_def full_reset_events_def)
  have calls: "(New_Decoder \<in> set (new_calls r r') \<longleftrightarrow>
            (state r = RECOGNIZER_ENDPOINT \<or> state r = RECOGNIZER_FINALIZED) \<and> reset_due K r)
       \<and> (\<forall>e \<in> set full_reset_events.
            e \<in> set (new_calls r r') \<longleftrightarrow> New_Decoder \<in> set (new_calls r r'))
       \<and> ((\<exists>n. Init_Decoding n \<in> set (new_calls r r')) \<longleftrightarrow>
            state r = RECOGNIZER_ENDPOINT \<and> \<not> reset_due K r)
       \<and> (\<forall>n. Init_Decoding n \<in> set (new_calls r r') \<longrightarrow>
            n = frame_offset r + frames_decoded K r)"
    unfolding p using n1 f
    by (auto simp: CleanUp_events_def full_reset_events_def)
  note o = AcceptWaveform_objects[OF assms]
  from calls o(1) o(3) o(4) o(5) show ?thesis by (intro conjI impI) (elim conjE, assumption)+
qed

text \<open>Both branches on the small library: ENDPOINT below the ceiling, where the frame
  offset goes from 0 to 3 and the pipeline is kept, and FINALIZED, where the pipeline is
  new.\<close>

theorem AcceptWaveform_reset_policy_witness:
  "state session_endpoint = RECOGNIZER_ENDPOINT \<and> \<not> reset_due toyK session_endpoint
   \<and> AcceptWaveform toyK [0, 0] session_endpoint = Inr (True, session_endpoint_fed)
   \<and> Init_Decoding 3 \<in> set (accept_calls toyK [0, 0] session_endpoint)
   \<and> New_Decoder \<notin> set (accept_calls toyK [0, 0] session_endpoint)
   \<and> frame_offset session_endpoint = 0 \<and> frames_decoded toyK session_endpoint = 3
   \<and> frame_offset session_endpoint_fed = 3
   \<and> pipeline_taken_up toyK session_endpoint = feature_pipeline session_endpoint
   \<and> feature_pipeline session_endpoint_fed = 5
   \<and> decoder session_endpoint_fed = Some 5
   \<and> state session_finalized = RECOGNIZER_FINALIZED \<and> reset_due toyK session_finalized
   \<and> AcceptWaveform toyK [0, 0] session_finalized = Inr (False, session_finalized_fed)
   \<and> New_Decoder \<in> set (accept_calls toyK [0, 0] session_finalized)
   \<and> Delete_Decoder \<in> set (accept_calls toyK [0, 0] session_finalized)
   \<and> New_FeaturePipeline \<in> set (accept_calls toyK [0, 0] session_finalized)
   \<and> frame_offset session_finalized_fed = 0
   \<and> pipeline_taken_up toyK session_finalized = fresh_pipeline toyK
   \<and> feature_pipeline session_finalized_fed = 2
   \<and> decoder session_finalized_fed = Some 2"
  using AcceptWaveform_reset_policy[OF toy_accept_endpoint]
    AcceptWaveform_reset_policy[OF toy_accept_finalized]
  by (simp add: accept_calls_def toy_accept_endpoint toy_accept_finalized toy_reset_due
      session_simps toy_new_calls full_reset_events_def toy_taken_up)

subsection \<open>Counters after a full reset\<close>

text \<open>
  Claim C3. When \<open>CleanUp\<close> takes the teardown branch, the frame offset and the
  samples-processed counter are zero afterwards, the samples-before-this-round counter is
  its old value plus the samples processed in the round, and so the sum of the two sample
  counters is what it was.
\<close>

theorem CleanUp_full_reset_counters:
  assumes "reset_due K r"
  shows "frame_offset (CleanUp K r) = 0
       \<and> samples_processed (CleanUp K r) = 0
       \<and> samples_round_start (CleanUp K r) = samples_round_start r + samples_processed r
       \<and> samples_round_start (CleanUp K r) + samples_processed (CleanUp K r)
           = samples_round_start r + samples_processed r
       \<and> New_Decoder \<in> set (new_calls r (CleanUp K r))"
  using assms
  by (auto simp: reset_due_def frames_decoded_def CleanUp_defs new_calls_def Let_def
      split: option.splits)

text \<open>On the FINALIZED session: 1600 samples before the round and 480 in it give 2080.\<close>

theorem CleanUp_full_reset_counters_witness:
  "reset_due toyK session_finalized
   \<and> samples_round_start session_finalized = 1600 \<and> samples_processed session_finalized = 480
   \<and> frame_offset (CleanUp toyK session_finalized) = 0
   \<and> samples_processed (CleanUp toyK session_finalized) = 0
   \<and> samples_round_start (CleanUp toyK session_finalized) = 2080"
  using CleanUp_full_reset_counters[OF toy_reset_due(2)]
  by (simp add: toy_reset_due) (simp add: toy_defs)

subsection \<open>Result requests outside RUNNING\<close>

text \<open>
  Claim C4. In any state other than RUNNING, \<open>Result\<close> and \<open>FinalResult\<close> return
  the empty-text result and change nothing in the session but the stored result string; in
  particular the state stays what it was, and no error is raised.
\<close>

theorem Result_outside_RUNNING:
  assumes "state r \<noteq> RECOGNIZER_RUNNING"
  shows \<open>Result K r = Inr (''{"text": ""}'', r\<lparr>last_result := ''{"text": ""}''\<rparr>)
       \<and> FinalResult K r = Inr (''{"text": ""}'', r\<lparr>last_result := ''{"text": ""}''\<rparr>)
       \<and> state (r\<lparr>last_result := ''{"text": ""}''\<rparr>) = state r\<close>
  using assms by (simp add: Result_def FinalResult_def StoreReturn_def empty_text_def)

text \<open>Before any audio, and after a result was already produced.\<close>

theorem Result_outside_RUNNING_witness:
  \<open>state session_new = RECOGNIZER_INITIALIZED
   \<and> Result toyK session_new = Inr (''{"text": ""}'', session_new\<lparr>last_result := ''{"text": ""}''\<rparr>)
   \<and> state session_endpoint = RECOGNIZER_ENDPOINT
   \<and> Result toyK session_endpoint
        = Inr (''{"text": ""}'', session_endpoint\<lparr>last_result := ''{"text": ""}''\<rparr>)
   \<and> FinalResult toyK session_endpoint
        = Inr (''{"text": ""}'', session_endpoint\<lparr>last_result := ''{"text": ""}''\<rparr>)\<close>
  using Result_outside_RUNNING[of session_new toyK] Result_outside_RUNNING[of session_endpoint toyK]
  by (simp add: session_simps)

subsection \<open>Empty results\<close>

text \<open>
  Claim C5. If the decoder has decoded no frame, \<open>GetResult\<close> returns the empty-text
  result at once: the session changes in the stored result string only, and no call is
  made. If frames were decoded and the lattice, after the rescoring pass when a rescoring
  graph is loaded, has no states, the empty-text result is returned as well, as a normal
  return; the lattice was fetched (and rescored), the metadata is untouched.
\<close>

theorem GetResult_empty_outcomes:
  assumes "decoder r = Some d"
  shows \<open>(dec_NumFramesDecoded K d = 0 \<longrightarrow>
           GetResult K r = Inr (''{"text": ""}'', r\<lparr>last_result := ''{"text": ""}''\<rparr>))
       \<and> (dec_NumFramesDecoded K d \<noteq> 0
           \<and> lat_NumStates K (if has_std_lm_fst K then lm_Rescore K (dec_GetLattice K d)
                               else dec_GetLattice K d) = 0 \<longrightarrow>
           GetResult K r = Inr (''{"text": ""}'',
             r\<lparr>calls := calls r @ Dec_GetLattice # (if has_std_lm_fst K then [Lm_Rescore] else []),
               last_result := ''{"text": ""}''\<rparr>))\<close>
  using assms
  by (simp add: GetResult_def final_lattice_def StoreReturn_def empty_text_def trace_def Let_def)

text \<open>No frames; and one frame with an empty lattice.\<close>

theorem GetResult_empty_outcomes_witness:
  \<open>decoder session_new = Some 0 \<and> dec_NumFramesDecoded toyK 0 = 0
   \<and> GetResult toyK session_new = Inr (''{"text": ""}'', session_new\<lparr>last_result := ''{"text": ""}''\<rparr>)
   \<and> dec_NumFramesDecoded toyK 1 = 1 \<and> lat_NumStates toyK (dec_GetLattice toyK 1) = 0
   \<and> GetResult toyK (session_new\<lparr>decoder := Some 1\<rparr>) = Inr (''{"text": ""}'',
        session_new\<lparr>decoder := Some 1, calls := [Dec_GetLattice],
                     last_result := ''{"text": ""}''\<rparr>)\<close>
  using GetResult_empty_outcomes[of session_new 0 toyK]
    GetResult_empty_outcomes[of "session_new\<lparr>decoder := Some 1\<rparr>" 1 toyK]
  by (simp add: session_simps) (simp add: toyK_def session_new_def InitState_def)

subsection \<open>AcceptWaveform: endpoint and counters\<close>

text \<open>
  Claim C6. A call of \<open>AcceptWaveform\<close> returns true if and only if the decoder, as
  the call leaves it, reports an endpoint. If it returns true, the number of frames ready
  in the feature pipeline is appended to \<open>silence_pos\<close> and the samples-processed
  counter keeps the value it had when the chunk was taken up; if it returns false,
  \<open>silence_pos\<close> is unchanged and the length of the chunk is added to that value. The
  value when the chunk is taken up is the one before the call, or zero when the call began
  with a full reset (claim C3).
\<close>

theorem AcceptWaveform_endpoint_bookkeeping:
  assumes "AcceptWaveform K wdata r = Inr (b, r')"
  shows "\<exists>d. decoder r' = Some d
       \<and> (b \<longleftrightarrow> dec_EndpointDetected K (feature_pipeline r') d)
       \<and> (b \<longrightarrow> silence_pos r' = silence_pos r @ [fp_NumFramesReady K (feature_pipeline r')]
              \<and> samples_processed r' =
                  (if (state r = RECOGNIZER_ENDPOINT \<or> state r = RECOGNIZER_FINALIZED)
                      \<and> reset_due K r
                   then 0 else samples_processed r))
       \<and> (\<not> b \<longrightarrow> silence_pos r' = silence_pos r
              \<and> samples_processed r' =
                  (if (state r = RECOGNIZER_ENDPOINT \<or> state r = RECOGNIZER_FINALIZED)
                      \<and> reset_due K r
                   then 0 else samples_processed r) + int (length wdata))"
proof -
  from AcceptWaveform_steps[OF assms] obtain r3 where
    o: "accept_online K (accept_push K wdata (accept_enter K r)) = Inr r3"
    and e: "accept_endpoint K wdata (accept_spk K wdata r3) = Inr (b, r')"
    by (elim exE conjE)
  let ?r4 = "accept_spk K wdata r3"
  let ?base = "if (state r = RECOGNIZER_ENDPOINT \<or> state r = RECOGNIZER_FINALIZED)
                  \<and> reset_due K r
               then 0 else samples_processed r"
  from accept_endpoint_result[OF e] obtain d where
    d: "decoder ?r4 = Some d"
    and b: "b \<longleftrightarrow> dec_EndpointDetected K (feature_pipeline ?r4) d"
    and sp: "silence_pos r' = (if b then silence_pos ?r4 @ [fp_NumFramesReady K (feature_pipeline ?r4)]
                           else silence_pos ?r4)"
    and n: "samples_processed r' = (if b then samples_processed ?r4
                                 else samples_processed ?r4 + int (length wdata))"
    by (elim exE conjE)
  have fp: "feature_pipeline r' = feature_pipeline ?r4" and dd: "decoder r' = decoder ?r4"
    using accept_endpoint_frame[OF e] by simp_all
  have s4: "silence_pos ?r4 = silence_pos r"
    using accept_online_frame(5)[OF o]
    by (simp add: accept_spk_frame accept_push_frame accept_enter_unchanged)
  have n4: "samples_processed ?r4 = ?base"
    using accept_online_frame(4)[OF o]
    by (simp add: accept_spk_frame accept_push_frame accept_enter_samples_processed)
  have "decoder r' = Some d
       \<and> (b \<longleftrightarrow> dec_EndpointDetected K (feature_pipeline r') d)
       \<and> (b \<longrightarrow> silence_pos r' = silence_pos r @ [fp_NumFramesReady K (feature_pipeline r')]
              \<and> samples_processed r' = ?base)
       \<and> (\<not> b \<longrightarrow> silence_pos r' = silence_pos r
              \<and> samples_processed r' = ?base + int (length wdata))"
    using d b sp n by (simp add: fp dd s4 n4)
  then show ?thesis by (rule exI)
qed

text \<open>An endpoint on the RUNNING session, none on the new one.\<close>

theorem AcceptWaveform_endpoint_bookkeeping_witness:
  "AcceptWaveform toyK [0, 0] session_running = Inr (True, session_running_fed)
   \<and> silence_pos session_running_fed = silence_pos session_running @ [5]
   \<and> samples_processed session_running_fed = samples_processed session_running
   \<and> AcceptWaveform toyK [0, 0] session_new = Inr (False, session_new_fed)
   \<and> silence_pos session_new_fed = silence_pos session_new
   \<and> samples_processed session_new_fed = samples_processed session_new + 2"
  using AcceptWaveform_endpoint_bookkeeping[OF toy_accept_running]
    AcceptWaveform_endpoint_bookkeeping[OF toy_accept_new]
  by (simp add: toy_accept_running toy_accept_new toy_fed_counters session_simps)

subsection \<open>Partial results\<close>

text \<open>
  Claim C7 says that \<open>PartialResult\<close> extracts the best path when the state is RUNNING
  or the decoder has processed a frame. In state ENDPOINT, with three frames decoded and a
  best path that reads ``hello world'', the result is empty; and in state RUNNING with no
  frame decoded it is empty too.
\<close>

theorem PartialResult_frames_or_running_counterexample:
  \<open>state session_endpoint = RECOGNIZER_ENDPOINT
   \<and> decoder session_endpoint = Some 3 \<and> dec_NumFramesDecoded toyK 3 = 3
   \<and> space_joined (map (sym_Find toyK) (dec_GetBestPath toyK 3)) = ''hello world''
   \<and> PartialResult toyK session_endpoint
        = Inr (''{"partial": ""}'', session_endpoint\<lparr>last_result := ''{"partial": ""}''\<rparr>)
   \<and> state (session_new\<lparr>state := RECOGNIZER_RUNNING\<rparr>) = RECOGNIZER_RUNNING
   \<and> PartialResult toyK (session_new\<lparr>state := RECOGNIZER_RUNNING\<rparr>)
        = Inr (''{"partial": ""}'',
               session_new\<lparr>state := RECOGNIZER_RUNNING, last_result := ''{"partial": ""}''\<rparr>)\<close>
  by (simp add: PartialResult_def StoreReturn_def empty_partial_def session_simps)
     (simp add: toyK_def)

text \<open>
  Claim C7, amended. \<open>PartialResult\<close> returns the empty partial result, changing only
  the stored result string, unless the state is RUNNING and the decoder has processed at
  least one frame; in that case it takes the decoder's current best path and returns its
  words joined by single blanks, with nothing else in the result.
\<close>

theorem PartialResult_gate:
  assumes "decoder r = Some d"
  shows \<open>(state r \<noteq> RECOGNIZER_RUNNING \<or> dec_NumFramesDecoded K d = 0 \<longrightarrow>
           PartialResult K r = Inr (''{"partial": ""}'', r\<lparr>last_result := ''{"partial": ""}''\<rparr>))
       \<and> (state r = RECOGNIZER_RUNNING \<and> dec_NumFramesDecoded K d \<noteq> 0 \<longrightarrow>
           PartialResult K r =
             Inr (''{"partial": "'' @ space_joined (map (sym_Find K) (dec_GetBestPath K d)) @ ''"}'',
               r\<lparr>calls := calls r @ [Dec_GetBestPath],
                 last_result := ''{"partial": "''
                   @ space_joined (map (sym_Find K) (dec_GetBestPath K d)) @ ''"}''\<rparr>))\<close>
  using assms
  by (auto simp: PartialResult_def StoreReturn_def empty_partial_def trace_def Let_def
      text_loop_space_joined)

text \<open>The RUNNING session yields its words, the FINALIZED one yields nothing.\<close>

theorem PartialResult_gate_witness:
  \<open>state session_running = RECOGNIZER_RUNNING \<and> decoder session_running = Some 3
   \<and> dec_NumFramesDecoded toyK 3 = 3
   \<and> PartialResult toyK session_running =
        Inr (''{"partial": "hello world"}'',
             session_running\<lparr>calls := calls session_running @ [Dec_GetBestPath],
                              last_result := ''{"partial": "hello world"}''\<rparr>)
   \<and> state session_finalized = RECOGNIZER_FINALIZED \<and> decoder session_finalized = Some 3
   \<and> PartialResult toyK session_finalized =
        Inr (''{"partial": ""}'', session_finalized\<lparr>last_result := ''{"partial": ""}''\<rparr>)\<close>
  using PartialResult_gate[of session_running 3 toyK] PartialResult_gate[of session_finalized 3 toyK]
  by (simp add: session_simps) (simp add: toyK_def)

subsection \<open>The utterance mean confidence\<close>

text \<open>
  Claim C8. When the minimum-Bayes-risk step gives its one-best entries,
  \<open>ComputeTimestamp\<close> leaves in \<open>uttConfidence\<close> a sum divided by the number of
  all words of the utterance, \<open><unk>\<close> included; the sum adds, in order, the
  confidence of every word that is not \<open><unk>\<close> to the value found in
  \<open>uttConfidence\<close>. The addition and the division are the library's float operations,
  whatever they are.
\<close>

theorem ComputeTimestamp_mean_confidence:
  assumes "one_best K clat = Some best"
  shows "uttConfidence (ComputeTimestamp K clat r) =
           f_div K (foldl (f_add K) (uttConfidence r)
                      (map mbr_conf (filter (\<lambda>e. sym_Find K (mbr_word e) \<noteq> ''<unk>'') best)))
                   (f_of_int K (int (length best)))"
  using ComputeTimestamp_uttConfidence[OF assms, of r] by (simp add: utt_mean_def)

text \<open>Three words of confidence one half, the second of them \<open><unk>\<close>: the result
  is one third.\<close>

theorem ComputeTimestamp_mean_confidence_witness:
  "map (sym_Find toyK) [1, 0, 2] = [''hello'', ''<unk>'', ''world'']
   \<and> uttConfidence session_running = 0
   \<and> uttConfidence (ComputeTimestamp toyK [1, 0, 2] session_running) = 1 / 3"
  using ComputeTimestamp_mean_confidence[OF toy_one_best, of session_running]
  by (simp add: toy_uttConfidence) (simp add: toyK_def)

subsection \<open>The byte buffer\<close>

text \<open>
  Claim C9. For a length \<open>len\<close> that is not negative, \<open>AcceptWaveform(data, len)\<close>
  does what the variant for 16-bit samples does on the first \<open>len div 2\<close> samples that
  the buffer holds, errors included. For an odd \<open>len\<close> the last byte plays no part: the
  call equals the one with \<open>len - 1\<close>, and it does not depend on the value of that
  byte.
\<close>

theorem AcceptWaveform_chars_pairs:
  assumes "0 \<le> len"
  shows "AcceptWaveform_chars K data len r =
           AcceptWaveform_shorts K (take (nat (len div 2)) (shorts_of_chars data)) (len div 2) r
       \<and> (odd len \<longrightarrow>
            AcceptWaveform_chars K data len r = AcceptWaveform_chars K data (len - 1) r
          \<and> (\<forall>c. AcceptWaveform_chars K (data[nat (len - 1) := c]) len r
                    = AcceptWaveform_chars K data len r))"
  using assms
  by (simp add: AcceptWaveform_chars_def AcceptWaveform_shorts_def wave_of_chars_shorts[symmetric]
      wave_of_chars_odd[symmetric] wave_of_chars_last_byte)

text \<open>Five bytes: the samples 1 and -1, and a fifth byte that is ignored.\<close>

theorem AcceptWaveform_chars_pairs_witness:
  "shorts_of_chars [0x01, 0x00, 0xFF, 0xFF, 0x7F] = [1, - 1]
   \<and> AcceptWaveform_shorts toyK [1, - 1] 2 session_new = Inr (False, session_new_fed)
   \<and> AcceptWaveform_chars toyK [0x01, 0x00, 0xFF, 0xFF, 0x7F] 5 session_new
       = AcceptWaveform_shorts toyK [1, - 1] 2 session_new
   \<and> AcceptWaveform_chars toyK [0x01, 0x00, 0xFF, 0xFF, 0x7F] 5 session_new
       = AcceptWaveform_chars toyK [0x01, 0x00, 0xFF, 0xFF, 0x7F] 4 session_new
   \<and> AcceptWaveform_chars toyK [0x01, 0x00, 0xFF, 0xFF, 0x80] 5 session_new
       = AcceptWaveform_chars toyK [0x01, 0x00, 0xFF, 0xFF, 0x7F] 5 session_new"
proof -
  have h: "(0::int) \<le> 5" by simp
  note t = AcceptWaveform_chars_pairs[OF h, of toyK "[0x01, 0x00, 0xFF, 0xFF, 0x7F]" session_new]
  have s: "AcceptWaveform_shorts toyK [1, - 1] 2 session_new = Inr (False, session_new_fed)"
    by (simp add: AcceptWaveform_shorts_def toy_wave toy_accept_new_wave)
  have c: "AcceptWaveform_chars toyK [0x01, 0x00, 0xFF, 0xFF, 0x80] 5 session_new
       = AcceptWaveform_chars toyK [0x01, 0x00, 0xFF, 0xFF, 0x7F] 5 session_new"
    by (simp add: AcceptWaveform_chars_def toy_wave)
  from t s c show ?thesis by (auto simp: toy_wave)
qed

subsection \<open>The confidence accumulator is never reset\<close>

text \<open>
  Claim C10. In every state, \<open>InitState\<close>, \<open>CleanUp\<close> (on either branch),
  \<open>AcceptWaveform\<close> (with or without a reset) and \<open>PartialResult\<close> leave
  \<open>uttConfidence\<close> as it is. \<open>Result\<close> and \<open>FinalResult\<close> leave it as it is
  outside RUNNING and when no utterance is produced; when one is produced, they divide by
  the utterance's word count a sum that starts from the value \<open>uttConfidence\<close> had
  before the request, so what earlier utterances left there is still part of it. And a
  \<open>Result\<close> in RUNNING with frames decoded, a lattice that is not empty and one-best
  entries does return, with that value.
\<close>

theorem uttConfidence_never_reset:
  "uttConfidence (InitState r) = uttConfidence r
   \<and> uttConfidence (CleanUp K r) = uttConfidence r
   \<and> (\<forall>wdata b r'. AcceptWaveform K wdata r = Inr (b, r') \<longrightarrow> uttConfidence r' = uttConfidence r)
   \<and> (\<forall>s r'. PartialResult K r = Inr (s, r') \<longrightarrow> uttConfidence r' = uttConfidence r)
   \<and> (\<forall>s r'. Result K r = Inr (s, r') \<or> FinalResult K r = Inr (s, r') \<longrightarrow>
         uttConfidence r' =
           (if state r = RECOGNIZER_RUNNING
            then (case utterance_entries K r' of
                    None \<Rightarrow> uttConfidence r
                  | Some best \<Rightarrow> utt_mean K (uttConfidence r) best)
            else uttConfidence r))
   \<and> (\<forall>d best. state r = RECOGNIZER_RUNNING \<and> decoder r = Some d
         \<and> dec_NumFramesDecoded K (dec_FinalizeDecoding K d) \<noteq> 0
         \<and> lat_NumStates K (final_lattice K (dec_FinalizeDecoding K d)) \<noteq> 0
         \<and> one_best K (final_lattice K (dec_FinalizeDecoding K d)) = Some best \<longrightarrow>
         confidence_after_Result K r = Some (utt_mean K (uttConfidence r) best))"
proof (intro conjI allI impI)
  show "uttConfidence (InitState r) = uttConfidence r" by (simp add: InitState_def)
  show "uttConfidence (CleanUp K r) = uttConfidence r" by (rule CleanUp_unchanged(1))
  show "uttConfidence r' = uttConfidence r" if "AcceptWaveform K wdata r = Inr (b, r')"
    for wdata b r' using that by (rule AcceptWaveform_uttConfidence)
  show "uttConfidence r' = uttConfidence r" if "PartialResult K r = Inr (s, r')"
    for s r' using that by (rule PartialResult_uttConfidence)
  show "uttConfidence r' =
           (if state r = RECOGNIZER_RUNNING
            then (case utterance_entries K r' of
                    None \<Rightarrow> uttConfidence r
                  | Some best \<Rightarrow> utt_mean K (uttConfidence r) best)
            else uttConfidence r)"
    if "Result K r = Inr (s, r') \<or> FinalResult K r = Inr (s, r')" for s r'
    using that Result_confidence[of K r s r'] FinalResult_confidence[of K r s r'] by blast
  show "confidence_after_Result K r = Some (utt_mean K (uttConfidence r) best)"
    if "state r = RECOGNIZER_RUNNING \<and> decoder r = Some d
         \<and> dec_NumFramesDecoded K (dec_FinalizeDecoding K d) \<noteq> 0
         \<and> lat_NumStates K (final_lattice K (dec_FinalizeDecoding K d)) \<noteq> 0
         \<and> one_best K (final_lattice K (dec_FinalizeDecoding K d)) = Some best" for d best
    using that Result_uttConfidence[of r d K best] by simp
qed

text \<open>The same utterance twice on one session: \<open>FinalResult\<close> leaves one third, the
  \<open>AcceptWaveform\<close> that follows tears the pipeline down and keeps the one third, and
  the \<open>Result\<close> after it leaves four ninths, not one third.\<close>

theorem uttConfidence_never_reset_witness:
  \<open>uttConfidence session_running = 0
   \<and> FinalResult toyK session_running
        = Inr (''{"text": "hello <unk> world"}'', session_running_final)
   \<and> uttConfidence session_running_final = 1 / 3
   \<and> state session_running_final = RECOGNIZER_FINALIZED
   \<and> reset_due toyK session_running_final
   \<and> uttConfidence (CleanUp toyK session_running_final) = 1 / 3
   \<and> uttConfidence (InitState session_running_final) = 1 / 3
   \<and> AcceptWaveform toyK [0, 0] session_running_final = Inr (False, session_second)
   \<and> New_Decoder \<in> set (new_calls session_running_final session_second)
   \<and> uttConfidence session_second = 1 / 3
   \<and> Result toyK session_second
        = Inr (''{"text": "hello <unk> world"}'', session_second_result)
   \<and> uttConfidence session_second_result = 4 / 9\<close>
  using uttConfidence_never_reset[of session_running toyK]
    uttConfidence_never_reset[of session_running_final toyK]
    uttConfidence_never_reset[of session_second toyK]
  by (simp add: toy_final_running toy_accept_final toy_result_second toy_two_utterances)

end
